theory Spec2Isabelle
  imports Main "HOL-Library.Word" "HOL-Library.Multiset"
begin

section \<open>The expert-evaluation client (assets/app.js, version 0.2.0)\<close>

text \<open>
  A shallow embedding of the session state machine, the validator, the timing
  accumulator, the cluster batch information and the submission pipeline of the
  browser client, version 0.2.0. The repository holds that version twice: in
  assets/app.js, which posts the form with \<open>fetch\<close>, and in src/unnamed/part_001, which
  posts it into a hidden iframe; the two differ in \<open>submit\<close> only, and both are
  embedded. (Version 0.1.0, kept after it in assets/app.js, has no \<open>submitted\<close> flag, no
  timing and no screen reconstruction, and is left out.) Identifiers (task keys, document ids, storage keys) are
  \<^typ>\<open>string\<close>; free text typed by the expert is a list of UTF-16 code units, since
  \<open>String.prototype.trim\<close> is defined on those. JavaScript numbers that the client
  stores (ratings, indices, millisecond clocks) are integers; \<open>null\<close> and an absent
  property are both \<open>None\<close>.
\<close>

subsection \<open>JavaScript values\<close>

type_synonym jstext = "16 word list"

text \<open>The code units that \<open>trim\<close> strips: ECMAScript's WhiteSpace and LineTerminator.\<close>

definition isWhiteSpace :: "16 word \<Rightarrow> bool" where
  "isWhiteSpace c \<longleftrightarrow>
     c \<in> {0x9, 0xA, 0xB, 0xC, 0xD, 0x20, 0xA0, 0x1680, 0x2028, 0x2029,
          0x202F, 0x205F, 0x3000, 0xFEFF}
     \<or> (0x2000 \<le> c \<and> c \<le> 0x200A)"

definition trim :: "jstext \<Rightarrow> jstext" where
  "trim s = rev (dropWhile isWhiteSpace (rev (dropWhile isWhiteSpace s)))"

text \<open>Truthiness: \<open>null\<close>, \<open>undefined\<close>, \<open>0\<close> and the empty string are falsy.\<close>

definition truthy_num :: "int option \<Rightarrow> bool" where
  "truthy_num v = (case v of None \<Rightarrow> False | Some n \<Rightarrow> n \<noteq> 0)"

definition truthy_str :: "string option \<Rightarrow> bool" where
  "truthy_str v = (case v of None \<Rightarrow> False | Some s \<Rightarrow> s \<noteq> [])"

text \<open>\<open>Number(v) >= k\<close>: \<open>Number(undefined)\<close> is NaN and compares false.\<close>

definition Number_ge :: "int option \<Rightarrow> int \<Rightarrow> bool" where
  "Number_ge v k = (case v of None \<Rightarrow> False | Some n \<Rightarrow> k \<le> n)"

text \<open>\<open>a || b\<close> on optional strings.\<close>

definition or_str :: "string option \<Rightarrow> string option \<Rightarrow> string option" where
  "or_str a b = (if truthy_str a then a else b)"

text \<open>A value used as a property name: \<open>obj[undefined]\<close> reads the property \<open>"undefined"\<close>.\<close>

definition propKey :: "string option \<Rightarrow> string" where
  "propKey k = (case k of None \<Rightarrow> ''undefined'' | Some s \<Rightarrow> s)"

definition clamp :: "int \<Rightarrow> int \<Rightarrow> int \<Rightarrow> int" where
  "clamp n lo hi = max lo (min hi n)"

subsection \<open>Assignment, tasks and answers\<close>

record doc =
  doc_id :: string
  title :: "string option"
  excerpt :: "string option"

text \<open>
  A task is a loosely typed object discriminated by \<open>type\<close>; the fields of both
  variants are kept side by side, absent ones being \<open>None\<close> (or the empty list).
\<close>

record task =
  type :: string
  task_uid :: "string option"
  task_id :: "string option"
  clustering_id :: string
  cluster_id :: "string option"
  batch_index :: "int option"
  items :: "doc list"
  pair_id :: "string option"
  doc1 :: "doc option"
  doc2 :: "doc option"
  same_cluster :: bool

record assignment =
  assignment_id :: string
  primary_clustering_id :: "string option"
  tasks :: "task list"

record item_answer =
  coherence :: "int option"
  misplaced :: bool
  item_note :: jstext

datatype answer =
    ClusterAnswer "string \<rightharpoonup> item_answer" jstext jstext
  | PairAnswer "int option" jstext jstext

text \<open>Property reads on an answer object; a property of the other variant is \<open>undefined\<close>.\<close>

fun answer_item :: "answer \<Rightarrow> string \<Rightarrow> item_answer option" where
  "answer_item (ClusterAnswer its label cnote) d = its d"
| "answer_item (PairAnswer r theme pnote) d = None"

fun answer_relatedness :: "answer \<Rightarrow> int option" where
  "answer_relatedness (PairAnswer r theme pnote) = r"
| "answer_relatedness (ClusterAnswer its label cnote) = None"

text \<open>\<open>String(answer.common_theme || "")\<close>.\<close>

fun answer_common_theme :: "answer \<Rightarrow> jstext" where
  "answer_common_theme (PairAnswer r theme pnote) = theme"
| "answer_common_theme (ClusterAnswer its label cnote) = []"

definition getAnswerKey :: "task \<Rightarrow> string option" where
  "getAnswerKey t = or_str (task_uid t) (task_id t)"

subsection \<open>Validator\<close>

text \<open>
  The user-facing texts are Greek string literals; only their identity matters here:
  \<open>MsgNone\<close> is the empty string, \<open>MsgAnswerCluster\<close> asks to answer the cluster,
  \<open>MsgRateAllWorks\<close> asks for a rating (1-5) for all works, \<open>MsgRateRelatedness\<close> asks
  for a relatedness rating (1-5), \<open>MsgCommonTheme\<close> asks for the common thematic
  element (for ratings of 4 and above).
\<close>

datatype message =
    MsgNone
  | MsgAnswerCluster
  | MsgRateAllWorks
  | MsgRateRelatedness
  | MsgCommonTheme

record verdict =
  ok :: bool
  msg :: message

text \<open>The \<open>for (const it of task.items)\<close> loop, leaving at the first unrated item.\<close>

fun validateItems :: "answer \<Rightarrow> doc list \<Rightarrow> verdict" where
  "validateItems answer [] = \<lparr>ok = True, msg = MsgNone\<rparr>"
| "validateItems answer (it # rest) =
     (case answer_item answer (doc_id it) of
        None \<Rightarrow> \<lparr>ok = False, msg = MsgRateAllWorks\<rparr>
      | Some a \<Rightarrow>
          if \<not> truthy_num (coherence a) then \<lparr>ok = False, msg = MsgRateAllWorks\<rparr>
          else validateItems answer rest)"

definition validateTask :: "task \<Rightarrow> answer option \<Rightarrow> verdict" where
  "validateTask task answer =
     (if type task = ''cluster'' then
        (case answer of
           None \<Rightarrow> \<lparr>ok = False, msg = MsgAnswerCluster\<rparr>
         | Some a \<Rightarrow> validateItems a (items task))
      else if type task = ''pair'' then
        (case answer of
           None \<Rightarrow> \<lparr>ok = False, msg = MsgRateRelatedness\<rparr>
         | Some a \<Rightarrow>
             if \<not> truthy_num (answer_relatedness a)
             then \<lparr>ok = False, msg = MsgRateRelatedness\<rparr>
             else if Number_ge (answer_relatedness a) 4 \<and> trim (answer_common_theme a) = []
             then \<lparr>ok = False, msg = MsgCommonTheme\<rparr>
             else \<lparr>ok = True, msg = MsgNone\<rparr>)
      else \<lparr>ok = True, msg = MsgNone\<rparr>)"

subsection \<open>Session\<close>

text \<open>
  The client-owned state object. \<open>lastTaskKey\<close> and \<open>lastTaskEnterAt\<close> are the
  properties \<open>_lastTaskKey\<close> and \<open>_lastTaskEnterAt\<close> of the source.
\<close>

text \<open>
  A value of the plain object \<open>taskTimeMs\<close>: a number of milliseconds, or a string.
  \<open>Text\<close> stands for any non-empty string; only \<open>+\<close> on a value that is not a number
  produces one, and its characters are not modelled.
\<close>

datatype time_value = Ms int | Text

record session =
  started :: bool
  taskIndex :: int
  answers :: "string \<rightharpoonup> answer"
  startedAt :: "string option"
  finishedAt :: "string option"
  clientSessionId :: "string option"
  submitted :: bool
  lastSubmissionUuid :: "string option"
  taskTimeMs :: "string \<rightharpoonup> time_value"
  lastTaskKey :: "string option"
  lastTaskEnterAt :: "int option"

definition defaultState :: session where
  "defaultState =
     \<lparr>started = False, taskIndex = 0, answers = Map.empty, startedAt = None,
      finishedAt = None, clientSessionId = None, submitted = False,
      lastSubmissionUuid = None, taskTimeMs = Map.empty, lastTaskKey = None,
      lastTaskEnterAt = None\<rparr>"

definition APP_VERSION :: string where
  "APP_VERSION = ''0.2.0''"

definition STORAGE_PREFIX :: string where
  "STORAGE_PREFIX = ''pap_eval_v2''"

definition storageKey :: "string \<Rightarrow> string \<Rightarrow> string" where
  "storageKey expert aid = STORAGE_PREFIX @ ''::'' @ expert @ ''::'' @ aid"

text \<open>\<open>randomId(prefix)\<close>, given the 24 hexadecimal digits drawn from the platform.\<close>

definition randomId :: "string \<Rightarrow> string \<Rightarrow> string" where
  "randomId prefix hex = (if prefix \<noteq> [] then prefix @ ''_'' @ hex else hex)"

subsection \<open>Timing accumulator\<close>

text \<open>
  \<open>taskTimeMs\<close> is a plain object, so a property it does not own is looked up in
  \<open>Object.prototype\<close>: these names read as a function (as the prototype object for
  \<open>__proto__\<close>), never as \<open>undefined\<close>.
\<close>

definition Object_prototype_keys :: "string list" where
  "Object_prototype_keys =
     [''constructor'', ''hasOwnProperty'', ''isPrototypeOf'', ''propertyIsEnumerable'',
      ''toLocaleString'', ''toString'', ''valueOf'', ''__proto__'', ''__defineGetter__'',
      ''__defineSetter__'', ''__lookupGetter__'', ''__lookupSetter__'']"

text \<open>
  \<open>(state.taskTimeMs[prevKey] || 0) + delta\<close>: a number is added to; a string, or an
  inherited function or object, is concatenated with the digits of \<open>delta\<close>.
\<close>

definition plusDelta :: "(string \<rightharpoonup> time_value) \<Rightarrow> string \<Rightarrow> int \<Rightarrow> time_value" where
  "plusDelta m prevKey delta =
     (case m prevKey of
        Some (Ms v) \<Rightarrow> Ms (v + delta)
      | Some Text \<Rightarrow> Text
      | None \<Rightarrow> if prevKey \<in> set Object_prototype_keys then Text else Ms (0 + delta))"

text \<open>
  \<open>state.taskTimeMs[prevKey] = v\<close>: for \<open>__proto__\<close>, unless the object owns a property of
  that name, the assignment runs the inherited setter, which ignores a value that is
  not an object.
\<close>

definition assignTime ::
    "(string \<rightharpoonup> time_value) \<Rightarrow> string \<Rightarrow> time_value \<Rightarrow> (string \<rightharpoonup> time_value)" where
  "assignTime m prevKey v =
     (if prevKey = ''__proto__'' \<and> m prevKey = None then m else m(prevKey \<mapsto> v))"

definition updateTimingOnTaskSwitch :: "int \<Rightarrow> string option \<Rightarrow> session \<Rightarrow> session" where
  "updateTimingOnTaskSwitch now nextTaskKey s =
     (let s1 =
        (case (lastTaskKey s, lastTaskEnterAt s) of
           (Some prevKey, Some prevEnter) \<Rightarrow>
             if prevKey \<noteq> [] \<and> prevEnter \<noteq> 0 then
               (let delta = max 0 (now - prevEnter) in
                s\<lparr>taskTimeMs := assignTime (taskTimeMs s) prevKey
                                    (plusDelta (taskTimeMs s) prevKey delta)\<rparr>)
             else s
         | _ \<Rightarrow> s)
      in s1\<lparr>lastTaskKey := nextTaskKey, lastTaskEnterAt := Some now\<rparr>)"

subsection \<open>Cluster batch information\<close>

text \<open>The object \<open>{k, K}\<close>: \<open>bk\<close> is \<open>k\<close> (\<open>None\<close> for \<open>null\<close>) and \<open>bK\<close> is \<open>K\<close>.\<close>

record batch_info =
  bk :: "nat option"
  bK :: nat

fun findIndex :: "('a \<Rightarrow> bool) \<Rightarrow> 'a list \<Rightarrow> nat option" where
  "findIndex P [] = None"
| "findIndex P (x # xs) = (if P x then Some 0 else map_option Suc (findIndex P xs))"

text \<open>
  \<open>Array.prototype.sort\<close> is a stable sort; with the comparator
  \<open>(a, b) => key a - key b\<close> its result is the stable ascending sort by the key,
  which \<^const>\<open>sort_key\<close> computes; the key is \<open>batch_index ?? 0\<close>.
\<close>

definition computeClusterBatchInfo :: "assignment \<Rightarrow> task \<Rightarrow> batch_info option" where
  "computeClusterBatchInfo a task =
     (if type task \<noteq> ''cluster'' then None
      else
        (let same = filter (\<lambda>t. type t = ''cluster''
                                  \<and> clustering_id t = clustering_id task
                                  \<and> cluster_id t = cluster_id task) (tasks a) in
         if length same \<le> 1 then None
         else
           (let sorted_tasks = sort_key (\<lambda>t. case batch_index t of None \<Rightarrow> 0 | Some b \<Rightarrow> b) same;
                idx = findIndex (\<lambda>t. getAnswerKey t = getAnswerKey task) sorted_tasks
            in Some \<lparr>bk = map_option Suc idx, bK = length sorted_tasks\<rparr>)))"

subsection \<open>Submission payload\<close>

datatype digest_rest =
    ClusterRest "string option" "int option" "(string \<times> string option) list"
  | PairRest "string option" "string option \<times> string option"
      "string option \<times> string option" bool
  | NoRest

record task_digest =
  d_task_uid :: "string option"
  d_task_id :: "string option"
  d_type :: string
  d_clustering_id :: string
  d_rest :: digest_rest

text \<open>\<open>{doc_id: d?.doc_id, title: d?.title || d?.doc_id}\<close>.\<close>

definition docDigest :: "doc option \<Rightarrow> string option \<times> string option" where
  "docDigest d =
     (case d of
        None \<Rightarrow> (None, None)
      | Some x \<Rightarrow> (Some (doc_id x), or_str (title x) (Some (doc_id x))))"

definition taskDigest :: "task \<Rightarrow> task_digest" where
  "taskDigest t =
     \<lparr>d_task_uid = or_str (task_uid t) None,
      d_task_id = or_str (task_id t) None,
      d_type = type t,
      d_clustering_id = clustering_id t,
      d_rest =
        (if type t = ''cluster'' then
           ClusterRest (cluster_id t) (batch_index t)
             (map (\<lambda>it. (doc_id it, or_str (title it) (Some (doc_id it)))) (items t))
         else if type t = ''pair'' then
           PairRest (or_str (pair_id t) None) (docDigest (doc1 t)) (docDigest (doc2 t))
             (same_cluster t)
         else NoRest)\<rparr>"

record payload =
  p_expert_id :: string
  p_assignment_id :: string
  p_primary_clustering_id :: "string option"
  p_app_version :: string
  p_submission_uuid :: string
  p_client_session_id :: "string option"
  p_submitted_at :: string
  p_started_at :: "string option"
  p_finished_at :: "string option"
  p_user_agent :: string
  p_timezone :: string
  p_task_time_ms :: "string \<rightharpoonup> time_value"
  p_tasks :: "task_digest list"
  p_answers :: "string \<rightharpoonup> answer"

text \<open>The fields of the Netlify form; \<open>f_payload\<close> stands for \<open>JSON.stringify(payload)\<close>.\<close>

record form_data =
  f_expert_id :: string
  f_assignment_id :: string
  f_app_version :: string
  f_submission_uuid :: string
  f_client_session_id :: "string option"
  f_payload :: payload

subsection \<open>The page: globals, storage and the parts of the document the client drives\<close>

datatype screen = ScreenWelcome | ScreenTask | ScreenSubmit | ScreenThanks

text \<open>
  The texts put into \<open>submitStatus\<close>: empty, incomplete answers, submitting, form not
  found, submission error with the HTTP status and the start of the response text,
  network error inviting to try again, and (iframe variant) submission error inviting
  to try again.
\<close>

datatype status_text =
    StatusEmpty
  | StatusIncomplete
  | StatusSubmitting
  | StatusFormNotFound
  | StatusHttpError nat jstext
  | StatusNetworkError
  | StatusSubmitError

datatype alert = AlertMsg message | AlertNoAssignment string

datatype error = TypeError | Error string

text \<open>
  \<open>requests\<close> lists the form posts issued so far, oldest first; \<open>titlePart\<close> is the
  "part k/K" suffix of the task title, when one is shown.
\<close>

record world =
  assignment :: assignment
  expertId :: string
  stateKey :: string
  state :: session
  localStorage :: "string \<rightharpoonup> string"
  screen :: "screen option"
  btnSubmit_disabled :: bool
  submitStatus :: status_text
  titlePart :: "batch_info option"
  alerts :: "alert list"
  requests :: "form_data list"

text \<open>
  \<open>JSON.parse\<close> and \<open>JSON.stringify\<close> on session records are the platform's; the
  client is modelled for any such pair. \<open>JSON_parse raw = None\<close> when parsing throws;
  \<open>Some None\<close> when the text parses to a falsy value such as \<open>null\<close>; a truthy value is
  taken to be a session object.
\<close>

record platform =
  JSON_parse :: "string \<Rightarrow> session option option"
  JSON_stringify :: "session \<Rightarrow> string"

definition saveState :: "platform \<Rightarrow> string \<Rightarrow> session \<Rightarrow> (string \<rightharpoonup> string) \<Rightarrow> (string \<rightharpoonup> string)" where
  "saveState P key st store = store(key \<mapsto> JSON_stringify P st)"

definition loadState :: "platform \<Rightarrow> (string \<rightharpoonup> string) \<Rightarrow> string \<Rightarrow> session option" where
  "loadState P store key =
     (case store key of
        None \<Rightarrow> None
      | Some raw \<Rightarrow>
          if raw = [] then None
          else (case JSON_parse P raw of None \<Rightarrow> None | Some v \<Rightarrow> v))"

definition persist :: "platform \<Rightarrow> world \<Rightarrow> world" where
  "persist P w =
     (if stateKey w \<noteq> [] then w\<lparr>localStorage := saveState P (stateKey w) (state w) (localStorage w)\<rparr>
      else w)"

definition showScreen :: "screen \<Rightarrow> world \<Rightarrow> world" where
  "showScreen name w = w\<lparr>screen := Some name\<rparr>"

text \<open>\<open>xs[i]\<close>: \<open>undefined\<close> outside the array.\<close>

definition nth_opt :: "'a list \<Rightarrow> int \<Rightarrow> 'a option" where
  "nth_opt xs i = (if 0 \<le> i \<and> i < int (length xs) then Some (xs ! nat i) else None)"

definition taskCount :: "world \<Rightarrow> int" where
  "taskCount w = int (length (tasks (assignment w)))"

subsection \<open>Rendering and navigation\<close>

text \<open>
  A handler returns the world it leaves behind together with the exception it ended
  with, if any: what it changed before throwing stays changed. \<open>render\<close> throws when
  there is no task at the cursor, when a task that is not a cluster task lacks
  \<open>doc1\<close> or \<open>doc2\<close> (\<open>renderPairTask\<close> reads their titles), and when the answer stored
  for a cluster task with items has no \<open>items\<close> (\<open>renderClusterTask\<close> indexes them).
  \<open>now\<close> is \<open>Date.now()\<close>.
\<close>

definition render :: "int \<Rightarrow> world \<Rightarrow> error option \<times> world" where
  "render now w =
     (if taskCount w \<le> taskIndex (state w) then
        (None, showScreen ScreenSubmit
                 (w\<lparr>state := updateTimingOnTaskSwitch now None (state w)\<rparr>))
      else
        (case nth_opt (tasks (assignment w)) (taskIndex (state w)) of
           None \<Rightarrow> (Some TypeError, w)
         | Some task \<Rightarrow>
             (let w1 = w\<lparr>state := updateTimingOnTaskSwitch now (getAnswerKey task) (state w)\<rparr> in
              if type task = ''cluster''
              then
                (let w2 = w1\<lparr>titlePart := computeClusterBatchInfo (assignment w) task\<rparr> in
                 case answers (state w) (propKey (getAnswerKey task)) of
                   Some (PairAnswer r theme pnote) \<Rightarrow>
                     if items task \<noteq> [] then (Some TypeError, w2) else (None, w2)
                 | _ \<Rightarrow> (None, w2))
              else if doc1 task = None \<or> doc2 task = None
              then (Some TypeError, w1\<lparr>titlePart := None\<rparr>)
              else (None, w1\<lparr>titlePart := None\<rparr>))))"

definition set_taskIndex :: "int \<Rightarrow> world \<Rightarrow> world" where
  "set_taskIndex i w = w\<lparr>state := (state w)\<lparr>taskIndex := i\<rparr>\<rparr>"

text \<open>The click handlers that \<open>init\<close> installs on \<open>btnBack\<close>, \<open>btnNext\<close> and \<open>btnReview\<close>.\<close>

definition btnBack_click :: "platform \<Rightarrow> int \<Rightarrow> world \<Rightarrow> error option \<times> world" where
  "btnBack_click P now w =
     render now (persist P
       (set_taskIndex (clamp (taskIndex (state w) - 1) 0 (taskCount w)) w))"

definition btnNext_click :: "platform \<Rightarrow> int \<Rightarrow> world \<Rightarrow> error option \<times> world" where
  "btnNext_click P now w =
     (case nth_opt (tasks (assignment w)) (taskIndex (state w)) of
        None \<Rightarrow> (Some TypeError, w)
      | Some task \<Rightarrow>
          (let key = getAnswerKey task;
               ans = answers (state w) (propKey key);
               v = validateTask task ans
           in if \<not> ok v then (None, w\<lparr>alerts := alerts w @ [AlertMsg (msg v)]\<rparr>)
              else render now (persist P
                     (set_taskIndex (clamp (taskIndex (state w) + 1) 0 (taskCount w)) w))))"

definition btnReview_click :: "platform \<Rightarrow> int \<Rightarrow> world \<Rightarrow> error option \<times> world" where
  "btnReview_click P now w =
     render now (persist P (set_taskIndex (max 0 (taskCount w - 1)) w))"

text \<open>\<open>startApp\<close>, with \<open>nowISO()\<close> and \<open>Date.now()\<close> given.\<close>

definition startApp :: "platform \<Rightarrow> string \<Rightarrow> int \<Rightarrow> world \<Rightarrow> error option \<times> world" where
  "startApp P nowIso now w =
     (let st = (state w)\<lparr>started := True\<rparr>;
          st' = (if \<not> truthy_str (startedAt st) then st\<lparr>startedAt := Some nowIso\<rparr> else st)
      in render now (showScreen ScreenTask (persist P (w\<lparr>state := st'\<rparr>))))"

subsection \<open>Loading the page\<close>

text \<open>
  What \<open>init\<close> reads from its environment: the \<open>expert\<close> query parameter (\<open>"E1"\<close>
  stands in for a missing or empty one), the result
  of \<open>loadJSON\<close> for a path (\<open>None\<close> when it throws), the local storage found, the
  random digits \<open>randomId\<close> would draw, and \<open>Date.now()\<close>.
\<close>

record init_env =
  query_expert :: "string option"
  fetched :: "string \<Rightarrow> assignment option"
  stored :: "string \<rightharpoonup> string"
  session_hex :: string
  load_now :: int

definition ensureClientSessionId ::
    "string \<Rightarrow> string \<Rightarrow> (string \<rightharpoonup> string) \<Rightarrow> string \<times> (string \<rightharpoonup> string)" where
  "ensureClientSessionId expert hex store =
     (let k = STORAGE_PREFIX @ ''::client_session_id::'' @ (if expert \<noteq> [] then expert else ''unknown'');
          fresh = randomId ''sess'' hex
      in case store k of
           None \<Rightarrow> (fresh, store(k \<mapsto> fresh))
         | Some v \<Rightarrow> if v \<noteq> [] then (v, store) else (fresh, store(k \<mapsto> fresh)))"

text \<open>\<open>loadState(stateKey) || defaultState()\<close>.\<close>

definition restoreState :: "platform \<Rightarrow> (string \<rightharpoonup> string) \<Rightarrow> string \<Rightarrow> session" where
  "restoreState P store key =
     (case loadState P store key of None \<Rightarrow> defaultState | Some s \<Rightarrow> s)"

definition expertOf :: "init_env \<Rightarrow> string" where
  "expertOf env = (case query_expert env of None \<Rightarrow> ''E1'' | Some e \<Rightarrow> if e \<noteq> [] then e else ''E1'')"

definition assignmentPath :: "string \<Rightarrow> string" where
  "assignmentPath expert = ''data/assignments/'' @ expert @ ''.json''"

text \<open>
  The result is \<open>Inl\<close> when the assignment could not be fetched: the alert is shown and
  the globals stay \<open>null\<close>. An exception of \<open>render\<close> lands in the same \<open>catch\<close>, after the
  screen has been chosen and before the final \<open>persist\<close>. Before the first
  \<open>showScreen\<close> the screen is \<open>None\<close>: whatever the markup shows.
\<close>

definition init :: "platform \<Rightarrow> init_env \<Rightarrow> alert + world" where
  "init P env =
     (let expert = expertOf env in
      case fetched env (assignmentPath expert) of
        None \<Rightarrow> Inl (AlertNoAssignment expert)
      | Some a \<Rightarrow>
          (let key = storageKey expert (assignment_id a);
               st0 = restoreState P (stored env) key;
               ensured = ensureClientSessionId expert (session_hex env) (stored env);
               st1 = (if \<not> truthy_str (clientSessionId st0)
                      then st0\<lparr>clientSessionId := Some (fst ensured)\<rparr> else st0);
               store1 = (if \<not> truthy_str (clientSessionId st0) then snd ensured else stored env);
               w0 = \<lparr>assignment = a, expertId = expert, stateKey = key, state = st1,
                     localStorage = store1, screen = None, btnSubmit_disabled = False,
                     submitStatus = StatusEmpty, titlePart = None, alerts = [], requests = []\<rparr>
           in if submitted st1 then Inr (persist P (showScreen ScreenThanks w0))
              else if started st1 then
                (let w1 = (if taskCount w0 \<le> taskIndex st1 then showScreen ScreenSubmit w0
                           else showScreen ScreenTask w0)
                 in case render (load_now env) w1 of
                      (None, w2) \<Rightarrow> Inr (persist P w2)
                    | (Some e, w2) \<Rightarrow> Inr (w2\<lparr>alerts := alerts w2 @ [AlertNoAssignment expert]\<rparr>))
              else Inr (persist P (showScreen ScreenWelcome w0))))"

subsection \<open>Submission pipeline\<close>

datatype fetch_result = NetworkFailure | Response nat jstext

text \<open>
  What \<open>submit\<close> reads from its environment: the two \<open>nowISO()\<close> stamps, the digits of
  the submission identifier, the browser's user agent and time zone, whether the
  Netlify form (and, in the iframe variant, the hidden iframe) is in the page, and
  what becomes of the form post: a network failure, or a response with its HTTP
  status and text.
\<close>

record submit_env =
  finished_iso :: string
  submission_hex :: string
  submitted_iso :: string
  user_agent :: string
  timezone :: string
  form_found :: bool
  iframe_found :: bool
  post_outcome :: fetch_result

text \<open>The validation loop of \<open>submit\<close>: false at the first task that does not validate.\<close>

fun tasksValidate :: "(string \<rightharpoonup> answer) \<Rightarrow> task list \<Rightarrow> bool" where
  "tasksValidate ans [] = True"
| "tasksValidate ans (t # ts) =
     (if \<not> ok (validateTask t (ans (propKey (getAnswerKey t)))) then False
      else tasksValidate ans ts)"

definition buildPayload :: "submit_env \<Rightarrow> world \<Rightarrow> string \<Rightarrow> payload" where
  "buildPayload env w submissionUuid =
     \<lparr>p_expert_id = expertId w,
      p_assignment_id = assignment_id (assignment w),
      p_primary_clustering_id = or_str (primary_clustering_id (assignment w)) None,
      p_app_version = APP_VERSION,
      p_submission_uuid = submissionUuid,
      p_client_session_id = clientSessionId (state w),
      p_submitted_at = submitted_iso env,
      p_started_at = startedAt (state w),
      p_finished_at = finishedAt (state w),
      p_user_agent = user_agent env,
      p_timezone = timezone env,
      p_task_time_ms = taskTimeMs (state w),
      p_tasks = map taskDigest (tasks (assignment w)),
      p_answers = answers (state w)\<rparr>"

definition formData :: "world \<Rightarrow> string \<Rightarrow> payload \<Rightarrow> form_data" where
  "formData w submissionUuid pl =
     \<lparr>f_expert_id = expertId w,
      f_assignment_id = assignment_id (assignment w),
      f_app_version = APP_VERSION,
      f_submission_uuid = submissionUuid,
      f_client_session_id = clientSessionId (state w),
      f_payload = pl\<rparr>"

definition response_ok :: "nat \<Rightarrow> bool" where
  "response_ok status \<longleftrightarrow> 200 \<le> status \<and> status \<le> 299"

text \<open>\<open>submit\<close> of assets/app.js: the form is posted with \<open>fetch\<close> and the response is read.\<close>

definition submit :: "platform \<Rightarrow> submit_env \<Rightarrow> world \<Rightarrow> world" where
  "submit P env w =
     (if submitted (state w) then showScreen ScreenThanks w
      else
        (let w1 = w\<lparr>btnSubmit_disabled := True\<rparr> in
         if \<not> tasksValidate (answers (state w1)) (tasks (assignment w1))
         then w1\<lparr>submitStatus := StatusIncomplete, btnSubmit_disabled := False\<rparr>
         else
           (let w2 = persist P (w1\<lparr>state := (state w1)\<lparr>finishedAt := Some (finished_iso env)\<rparr>\<rparr>);
                submissionUuid = randomId ''sub'' (submission_hex env);
                w3 = w2\<lparr>state := (state w2)\<lparr>lastSubmissionUuid := Some submissionUuid\<rparr>\<rparr>;
                pl = buildPayload env w3 submissionUuid;
                w4 = w3\<lparr>submitStatus := StatusSubmitting\<rparr>
            in if \<not> form_found env
               then w4\<lparr>submitStatus := StatusFormNotFound, btnSubmit_disabled := False\<rparr>
               else
                 (let w5 = w4\<lparr>requests := requests w4 @ [formData w4 submissionUuid pl]\<rparr> in
                  case post_outcome env of
                    NetworkFailure \<Rightarrow>
                      w5\<lparr>submitStatus := StatusNetworkError, btnSubmit_disabled := False\<rparr>
                  | Response status body \<Rightarrow>
                      if \<not> response_ok status
                      then w5\<lparr>submitStatus := StatusHttpError status (take 120 body),
                              btnSubmit_disabled := False\<rparr>
                      else (showScreen ScreenThanks
                              (persist P (w5\<lparr>state := (state w5)\<lparr>submitted := True\<rparr>\<rparr>)))
                             \<lparr>submitStatus := StatusEmpty\<rparr>))))"

text \<open>
  The variant of src/unnamed/part_001 posts the form into a hidden iframe.
  \<open>submitViaNetlifyForm\<close> throws when the form or the iframe is missing; otherwise it
  fills the form, submits it, and returns a promise that the iframe's \<open>load\<close> event or
  a timer of 2500 ms resolves, whichever comes first. Nothing rejects the promise and
  nothing reads the response, so the outcome of the post is not an input of the result.
\<close>

definition submitViaNetlifyForm :: "submit_env \<Rightarrow> form_data \<Rightarrow> world \<Rightarrow> error + world" where
  "submitViaNetlifyForm env data w =
     (if \<not> form_found env then Inl (Error ''netlifyForm not found in index.html'')
      else if \<not> iframe_found env then Inl (Error ''netlify_iframe not found in index.html'')
      else Inr (w\<lparr>requests := requests w @ [data]\<rparr>))"

definition submit_part_001 :: "platform \<Rightarrow> submit_env \<Rightarrow> world \<Rightarrow> world" where
  "submit_part_001 P env w =
     (if submitted (state w) then showScreen ScreenThanks w
      else
        (let w1 = w\<lparr>btnSubmit_disabled := True\<rparr> in
         if \<not> tasksValidate (answers (state w1)) (tasks (assignment w1))
         then w1\<lparr>submitStatus := StatusIncomplete, btnSubmit_disabled := False\<rparr>
         else
           (let w2 = persist P (w1\<lparr>state := (state w1)\<lparr>finishedAt := Some (finished_iso env)\<rparr>\<rparr>);
                submissionUuid = randomId ''sub'' (submission_hex env);
                w3 = w2\<lparr>state := (state w2)\<lparr>lastSubmissionUuid := Some submissionUuid\<rparr>\<rparr>;
                pl = buildPayload env w3 submissionUuid;
                data = formData w3 submissionUuid pl;
                w4 = w3\<lparr>submitStatus := StatusSubmitting\<rparr>
            in case submitViaNetlifyForm env data w4 of
                 Inr w5 \<Rightarrow>
                   (showScreen ScreenThanks
                      (persist P (w5\<lparr>state := (state w5)\<lparr>submitted := True\<rparr>\<rparr>)))
                     \<lparr>submitStatus := StatusEmpty\<rparr>
               | Inl e \<Rightarrow> w4\<lparr>submitStatus := StatusSubmitError, btnSubmit_disabled := False\<rparr>)))"

subsection \<open>The words of the specification\<close>

text \<open>
  A non-null rating in 1..5; a text that is empty or consists of white space only; a
  cluster answer that records such a rating for an item, and for every item of a task;
  a pair answer with such a relatedness; a pair answer that owes the common theme.
\<close>

definition is_rating :: "int option \<Rightarrow> bool" where
  "is_rating v = (case v of None \<Rightarrow> False | Some n \<Rightarrow> 1 \<le> n \<and> n \<le> 5)"

definition blank :: "jstext \<Rightarrow> bool" where
  "blank s = list_all isWhiteSpace s"

definition item_rated :: "answer option \<Rightarrow> doc \<Rightarrow> bool" where
  "item_rated answer it =
     (case answer of
        None \<Rightarrow> False
      | Some a \<Rightarrow> (case answer_item a (doc_id it) of None \<Rightarrow> False | Some ia \<Rightarrow> is_rating (coherence ia)))"

definition items_rated :: "task \<Rightarrow> answer option \<Rightarrow> bool" where
  "items_rated task answer = list_all (item_rated answer) (items task)"

definition pair_rated :: "answer option \<Rightarrow> bool" where
  "pair_rated answer = (case answer of None \<Rightarrow> False | Some a \<Rightarrow> is_rating (answer_relatedness a))"

definition theme_missing :: "answer option \<Rightarrow> bool" where
  "theme_missing answer =
     (case answer of
        None \<Rightarrow> False
      | Some a \<Rightarrow> Number_ge (answer_relatedness a) 4 \<and> blank (answer_common_theme a))"

text \<open>
  The cluster tasks of an assignment with the \<open>(clustering_id, cluster_id)\<close> of a task,
  in storage order; the batch index of a task, a missing one being 0; a list that is
  a stable sort of another by a key: a rearrangement of it, ordered by the key, the
  elements of each key in their original order.
\<close>

definition group_of :: "assignment \<Rightarrow> task \<Rightarrow> task list" where
  "group_of a task =
     [t \<leftarrow> tasks a. type t = ''cluster''
        \<and> (clustering_id t, cluster_id t) = (clustering_id task, cluster_id task)]"

definition batch_or_zero :: "task \<Rightarrow> int" where
  "batch_or_zero t = (case batch_index t of Some b \<Rightarrow> b | None \<Rightarrow> 0)"

definition stable_sort_of :: "('a \<Rightarrow> int) \<Rightarrow> 'a list \<Rightarrow> 'a list \<Rightarrow> bool" where
  "stable_sort_of f xs ys \<longleftrightarrow>
     mset ys = mset xs \<and> sorted (map f ys)
     \<and> (\<forall>v. filter (\<lambda>x. f x = v) ys = filter (\<lambda>x. f x = v) xs)"

text \<open>
  The running total of a task (0 when none is recorded); the key of the task at a
  cursor position (none past the last task); the range of the task cursor; the
  screen of a session.
\<close>

definition total_ms :: "session \<Rightarrow> string \<Rightarrow> int" where
  "total_ms s key = (case taskTimeMs s key of Some (Ms v) \<Rightarrow> v | _ \<Rightarrow> 0)"

definition cursor_key :: "assignment \<Rightarrow> int \<Rightarrow> string option" where
  "cursor_key a i =
     (if 0 \<le> i \<and> i < int (length (tasks a)) then getAnswerKey (tasks a ! nat i) else None)"

text \<open>
  What a switch at clock \<open>now\<close> leaves of a session \<open>s\<close> whose task \<open>prev\<close> was current
  since clock \<open>t\<close>: the total of \<open>prev\<close> has grown by the elapsed milliseconds, clamped
  to non-negative, no other total has changed, and the task at the cursor is now
  current since \<open>now\<close>.
\<close>

definition accumulated :: "session \<Rightarrow> string \<Rightarrow> int \<Rightarrow> int \<Rightarrow> assignment \<Rightarrow> session \<Rightarrow> bool" where
  "accumulated s prev t now a s' \<longleftrightarrow>
     taskTimeMs s' = (taskTimeMs s)(prev \<mapsto> Ms (total_ms s prev + max 0 (now - t)))
     \<and> lastTaskKey s' = cursor_key a (taskIndex s')
     \<and> lastTaskEnterAt s' = Some now"

definition in_range :: "world \<Rightarrow> bool" where
  "in_range w \<longleftrightarrow> 0 \<le> taskIndex (state w) \<and> taskIndex (state w) \<le> taskCount w"

definition screenFor :: "session \<Rightarrow> int \<Rightarrow> screen" where
  "screenFor s n =
     (if submitted s then ScreenThanks
      else if started s then (if n \<le> taskIndex s then ScreenSubmit else ScreenTask)
      else ScreenWelcome)"

text \<open>
  A transmission that fails (a network error, or a status outside 200..299), and the
  status texts that report an error.
\<close>

definition transport_failed :: "submit_env \<Rightarrow> bool" where
  "transport_failed env =
     (case post_outcome env of NetworkFailure \<Rightarrow> True | Response status body \<Rightarrow> \<not> response_ok status)"

definition is_error_status :: "status_text \<Rightarrow> bool" where
  "is_error_status t =
     (case t of StatusNetworkError \<Rightarrow> True | StatusHttpError status body \<Rightarrow> True
      | StatusSubmitError \<Rightarrow> True | _ \<Rightarrow> False)"

subsection \<open>Concrete inputs\<close>

definition mkDoc :: "string \<Rightarrow> doc" where
  "mkDoc d = \<lparr>doc_id = d, title = None, excerpt = None\<rparr>"

definition clusterTask :: "string \<Rightarrow> string \<Rightarrow> string \<Rightarrow> int option \<Rightarrow> doc list \<Rightarrow> task" where
  "clusterTask uid cl c b its =
     \<lparr>type = ''cluster'', task_uid = Some uid, task_id = None, clustering_id = cl,
      cluster_id = Some c, batch_index = b, items = its, pair_id = None,
      doc1 = None, doc2 = None, same_cluster = False\<rparr>"

definition pairTask :: "string \<Rightarrow> string \<Rightarrow> string \<Rightarrow> string \<Rightarrow> task" where
  "pairTask uid cl d1 d2 =
     \<lparr>type = ''pair'', task_uid = Some uid, task_id = None, clustering_id = cl,
      cluster_id = None, batch_index = None, items = [], pair_id = None,
      doc1 = Some (mkDoc d1), doc2 = Some (mkDoc d2), same_cluster = False\<rparr>"

definition rated :: "int \<Rightarrow> item_answer" where
  "rated n = \<lparr>coherence = Some n, misplaced = False, item_note = []\<rparr>"

text \<open>
  Three cluster tasks of cluster 0 of clustering A, stored in the order of batch
  index 2, 0, 1.
\<close>

definition batchScenario :: assignment where
  "batchScenario =
     \<lparr>assignment_id = ''a1'', primary_clustering_id = Some ''A'',
      tasks = [clusterTask ''A_c0_b2'' ''A'' ''0'' (Some 2) [],
               clusterTask ''A_c0_b0'' ''A'' ''0'' (Some 0) [],
               clusterTask ''A_c0_b1'' ''A'' ''0'' (Some 1) []]\<rparr>"

text \<open>
  Two cluster tasks of the same cluster with the same \<open>task_uid\<close>; an assignment in
  which the group of cluster 0 of clustering A lies among a pair task and cluster
  tasks of another cluster and another clustering, one of its tasks lacking a
  \<open>batch_index\<close>.
\<close>

definition dupScenario :: assignment where
  "dupScenario =
     \<lparr>assignment_id = ''a1'', primary_clustering_id = Some ''A'',
      tasks = [clusterTask ''A_c0'' ''A'' ''0'' (Some 0) [],
               clusterTask ''A_c0'' ''A'' ''0'' (Some 1) []]\<rparr>"

definition mixedScenario :: assignment where
  "mixedScenario =
     \<lparr>assignment_id = ''a1'', primary_clustering_id = Some ''A'',
      tasks = [clusterTask ''A_c0_b1'' ''A'' ''0'' (Some 1) [],
               pairTask ''A_p0'' ''A'' ''d1'' ''d2'',
               clusterTask ''A_c1_b0'' ''A'' ''1'' (Some 0) [],
               clusterTask ''B_c0_b0'' ''B'' ''0'' (Some 0) [],
               clusterTask ''A_c0_b0'' ''A'' ''0'' None []]\<rparr>"

text \<open>
  One cluster task of three items and one pair task, all answered (coherence 5,
  relatedness 2), in a page at the first task; a platform whose serialisation keeps
  the submitted flag only; a task of unknown type.
\<close>

definition demoAssignment :: assignment where
  "demoAssignment =
     \<lparr>assignment_id = ''a1'', primary_clustering_id = Some ''A'',
      tasks = [clusterTask ''A_c0_b0'' ''A'' ''0'' (Some 0) [mkDoc ''d1'', mkDoc ''d2'', mkDoc ''d3''],
               pairTask ''A_p0'' ''A'' ''d1'' ''d2'']\<rparr>"

definition demoAnswers :: "string \<rightharpoonup> answer" where
  "demoAnswers =
     [''A_c0_b0'' \<mapsto> ClusterAnswer [''d1'' \<mapsto> rated 5, ''d2'' \<mapsto> rated 5, ''d3'' \<mapsto> rated 5] [] [],
      ''A_p0'' \<mapsto> PairAnswer (Some 2) [] []]"

definition demoSession :: session where
  "demoSession = defaultState\<lparr>started := True, answers := demoAnswers,
                    clientSessionId := Some ''sess_00''\<rparr>"

definition demoPlatform :: platform where
  "demoPlatform =
     \<lparr>JSON_parse = (\<lambda>raw. if raw = ''done'' then Some (Some (demoSession\<lparr>submitted := True\<rparr>))
                          else if raw = ''null'' then Some None else None),
      JSON_stringify = (\<lambda>s. if submitted s then ''done'' else ''open'')\<rparr>"

definition demoWorld :: world where
  "demoWorld =
     \<lparr>assignment = demoAssignment, expertId = ''E1'', stateKey = storageKey ''E1'' ''a1'',
      state = demoSession, localStorage = Map.empty, screen = Some ScreenTask,
      btnSubmit_disabled = False, submitStatus = StatusEmpty, titlePart = None,
      alerts = [], requests = []\<rparr>"

definition surveyTask :: task where
  "surveyTask = (pairTask ''A_s0'' ''A'' ''d1'' ''d2'')\<lparr>type := ''survey''\<rparr>"

text \<open>
  The answered page with the first task current since clock 1000, and with the last
  task current since clock 2000; a session whose current task has the key
  \<open>"constructor"\<close>.
\<close>

definition timedWorld :: world where
  "timedWorld = demoWorld\<lparr>state := demoSession\<lparr>lastTaskKey := Some ''A_c0_b0'',
                                                  lastTaskEnterAt := Some 1000\<rparr>\<rparr>"

definition lastWorld :: world where
  "lastWorld = demoWorld\<lparr>state := demoSession\<lparr>taskIndex := 1, lastTaskKey := Some ''A_p0'',
                                                 lastTaskEnterAt := Some 2000\<rparr>\<rparr>"

definition constructorSession :: session where
  "constructorSession = defaultState\<lparr>started := True, lastTaskKey := Some ''constructor'',
                                     lastTaskEnterAt := Some 1000\<rparr>"

text \<open>A submission whose post meets a network failure; a page load for expert E1.\<close>

definition failingEnv :: submit_env where
  "failingEnv =
     \<lparr>finished_iso = ''2026-02-18T10:00:00.000Z'', submission_hex = ''00'',
      submitted_iso = ''2026-02-18T10:00:00.001Z'', user_agent = ''ua'', timezone = ''UTC'',
      form_found = True, iframe_found = True, post_outcome = NetworkFailure\<rparr>"

definition demoEnv :: "(string \<rightharpoonup> string) \<Rightarrow> init_env" where
  "demoEnv store =
     \<lparr>query_expert = Some ''E1'',
      fetched = (\<lambda>p. if p = ''data/assignments/E1.json'' then Some demoAssignment else None),
      stored = store, session_hex = ''00'', load_now = 1000\<rparr>"

section \<open>Properties\<close>

subsection \<open>Validator\<close>

text \<open>\<open>trim\<close> leaves nothing exactly of the texts that are blank.\<close>

lemma trim_Nil_iff: "trim s = [] \<longleftrightarrow> blank s"
proof -
  have "trim s = [] \<longleftrightarrow> (\<forall>x\<in>set (dropWhile isWhiteSpace s). isWhiteSpace x)"
    by (simp add: trim_def dropWhile_eq_Nil_conv)
  also have "\<dots> \<longleftrightarrow> dropWhile isWhiteSpace s = []"
  proof
    assume a: "\<forall>x\<in>set (dropWhile isWhiteSpace s). isWhiteSpace x"
    show "dropWhile isWhiteSpace s = []"
    proof (rule ccontr)
      assume n: "dropWhile isWhiteSpace s \<noteq> []"
      then have "\<not> isWhiteSpace (hd (dropWhile isWhiteSpace s))" by (rule hd_dropWhile)
      moreover have "hd (dropWhile isWhiteSpace s) \<in> set (dropWhile isWhiteSpace s)"
        using n by simp
      ultimately show False using a by blast
    qed
  qed (auto dest: set_dropWhileD)
  also have "\<dots> \<longleftrightarrow> blank s"
    by (simp add: blank_def dropWhile_eq_Nil_conv list_all_iff)
  finally show ?thesis .
qed

text \<open>The item loop passes exactly when every item has an answer whose coherence is truthy.\<close>

lemma validateItems_ok:
  "ok (validateItems a its) \<longleftrightarrow>
     (\<forall>it\<in>set its. \<exists>ia n. answer_item a (doc_id it) = Some ia \<and> coherence ia = Some n \<and> n \<noteq> 0)"
  by (induction its) (auto simp: truthy_num_def split: option.splits)

lemma validateItems_msg:
  "msg (validateItems a its) = (if ok (validateItems a its) then MsgNone else MsgRateAllWorks)"
  by (induction its) (auto split: option.splits)

lemma validateItems_coherence_only:
  assumes "\<And>d. map_option coherence (answer_item a d) = map_option coherence (answer_item b d)"
  shows "validateItems a its = validateItems b its"
proof (induction its)
  case Nil
  show ?case by simp
next
  case (Cons it rest)
  have "map_option coherence (answer_item a (doc_id it)) = map_option coherence (answer_item b (doc_id it))"
    by (rule assms)
  with Cons show ?case
    by (cases "answer_item a (doc_id it)"; cases "answer_item b (doc_id it)") auto
qed

text \<open>
  C2, as amended. For a pair task and any answer value, \<open>validateTask\<close> returns
  \<open>ok = false\<close> exactly when the answer is absent, or its relatedness is null, absent or
  0, or the relatedness is at least 4 and the common theme is empty or white space
  only; the message is the common-theme one exactly in the last case, the
  relatedness one in the others, and empty when \<open>ok = true\<close>. The validator tests that
  a rating is present, not that it lies in 1..5: any number other than 0 counts. For
  answers whose relatedness is null, absent or a rating in 1..5 this is the claim as
  it was stated.
\<close>

theorem validateTask_pair:
  assumes "type task = ''pair''"
  shows "(ok (validateTask task answer) \<longleftrightarrow>
            (\<exists>a r. answer = Some a \<and> answer_relatedness a = Some r \<and> r \<noteq> 0
                   \<and> \<not> (4 \<le> r \<and> blank (answer_common_theme a))))
       \<and> (msg (validateTask task answer) = MsgCommonTheme \<longleftrightarrow>
            (\<exists>a r. answer = Some a \<and> answer_relatedness a = Some r \<and> 4 \<le> r
                   \<and> blank (answer_common_theme a)))
       \<and> (msg (validateTask task answer) =
            (if ok (validateTask task answer) then MsgNone
             else if theme_missing answer then MsgCommonTheme else MsgRateRelatedness))
       \<and> ((answer = None \<or> (\<exists>a. answer = Some a \<and> answer_relatedness a = None) \<or> pair_rated answer) \<longrightarrow>
            (ok (validateTask task answer) \<longleftrightarrow> pair_rated answer \<and> \<not> theme_missing answer))"
proof -
  have ne: "type task \<noteq> ''cluster''" using assms by simp
  show ?thesis
  proof (cases answer)
    case None
    then show ?thesis
      using assms by (simp add: validateTask_def pair_rated_def theme_missing_def)
  next
    case (Some a)
    show ?thesis
    proof (cases "answer_relatedness a")
      case None
      then show ?thesis
        using assms Some
        by (simp add: validateTask_def pair_rated_def theme_missing_def truthy_num_def
            Number_ge_def is_rating_def)
    next
      case (Some r)
      then show ?thesis
        using assms \<open>answer = Some a\<close>
        by (auto simp: validateTask_def pair_rated_def theme_missing_def truthy_num_def
            Number_ge_def is_rating_def trim_Nil_iff)
    qed
  qed
qed

text \<open>
  The scenario of the specification (relatedness 4, empty common theme), an absent
  answer, and relatedness 2 without a theme.
\<close>

theorem validateTask_pair_witness:
  "type (pairTask ''p1'' ''A'' ''d1'' ''d2'') = ''pair''
   \<and> \<not> ok (validateTask (pairTask ''p1'' ''A'' ''d1'' ''d2'') (Some (PairAnswer (Some 4) [] [])))
   \<and> msg (validateTask (pairTask ''p1'' ''A'' ''d1'' ''d2'') (Some (PairAnswer (Some 4) [] []))) = MsgCommonTheme
   \<and> \<not> ok (validateTask (pairTask ''p1'' ''A'' ''d1'' ''d2'') None)
   \<and> ok (validateTask (pairTask ''p1'' ''A'' ''d1'' ''d2'') (Some (PairAnswer (Some 2) [] [])))"
proof -
  have t: "type (pairTask ''p1'' ''A'' ''d1'' ''d2'') = ''pair''"
    by (simp add: pairTask_def)
  show ?thesis
    using validateTask_pair [OF t, of "Some (PairAnswer (Some 4) [] [])"]
      validateTask_pair [OF t, of None]
      validateTask_pair [OF t, of "Some (PairAnswer (Some 2) [] [])"] t
    by (simp add: blank_def)
qed

text \<open>
  C2 as stated fails: relatedness 7 is no rating in 1..5, and with a common theme
  \<open>"x"\<close> the pair task validates.
\<close>

theorem validateTask_pair_out_of_range:
  "type (pairTask ''p1'' ''A'' ''d1'' ''d2'') = ''pair''
   \<and> \<not> pair_rated (Some (PairAnswer (Some 7) [0x78] []))
   \<and> ok (validateTask (pairTask ''p1'' ''A'' ''d1'' ''d2'') (Some (PairAnswer (Some 7) [0x78] [])))"
  by (simp add: pairTask_def pair_rated_def is_rating_def validateTask_def truthy_num_def
      Number_ge_def trim_def isWhiteSpace_def)

text \<open>
  C3, as amended. For a cluster task and any answer value, \<open>validateTask\<close> returns
  \<open>ok = true\<close> exactly when the answer is present and records, for the \<open>doc_id\<close> of
  every item of the task, a coherence that is neither null nor 0. The validator
  tests that a rating is present, not that it lies in 1..5; when every recorded
  coherence is null or a rating in 1..5, the result is \<open>ok = false\<close> unless every item
  has its rating, as the claim was stated. The result depends on the recorded
  coherences only: not on the misplaced flags, the item notes, the cluster label or
  the cluster note.
\<close>

theorem validateTask_cluster:
  assumes "type task = ''cluster''"
  shows "(ok (validateTask task answer) \<longleftrightarrow>
            (\<exists>a. answer = Some a
               \<and> (\<forall>it\<in>set (items task). \<exists>ia n.
                     answer_item a (doc_id it) = Some ia \<and> coherence ia = Some n \<and> n \<noteq> 0)))
       \<and> ((\<forall>a it ia. answer = Some a \<and> it \<in> set (items task) \<and> answer_item a (doc_id it) = Some ia
              \<longrightarrow> coherence ia = None \<or> is_rating (coherence ia)) \<longrightarrow>
            (\<not> items_rated task answer \<longrightarrow> \<not> ok (validateTask task answer))
            \<and> (answer \<noteq> None \<and> items_rated task answer \<longrightarrow> ok (validateTask task answer)))
       \<and> (\<forall>its its' l l' n n'.
            (\<forall>d. map_option coherence (its d) = map_option coherence (its' d)) \<longrightarrow>
            validateTask task (Some (ClusterAnswer its l n))
              = validateTask task (Some (ClusterAnswer its' l' n')))"
proof (intro conjI)
  show c1: "ok (validateTask task answer) \<longleftrightarrow>
            (\<exists>a. answer = Some a
               \<and> (\<forall>it\<in>set (items task). \<exists>ia n.
                     answer_item a (doc_id it) = Some ia \<and> coherence ia = Some n \<and> n \<noteq> 0))"
    using assms by (cases answer) (simp_all add: validateTask_def validateItems_ok)
  show "(\<forall>a it ia. answer = Some a \<and> it \<in> set (items task) \<and> answer_item a (doc_id it) = Some ia
              \<longrightarrow> coherence ia = None \<or> is_rating (coherence ia)) \<longrightarrow>
            (\<not> items_rated task answer \<longrightarrow> \<not> ok (validateTask task answer))
            \<and> (answer \<noteq> None \<and> items_rated task answer \<longrightarrow> ok (validateTask task answer))"
  proof (intro impI conjI)
    assume wf: "\<forall>a it ia. answer = Some a \<and> it \<in> set (items task) \<and> answer_item a (doc_id it) = Some ia
              \<longrightarrow> coherence ia = None \<or> is_rating (coherence ia)"
    {
      assume nr: "\<not> items_rated task answer"
      show "\<not> ok (validateTask task answer)"
      proof
        assume "ok (validateTask task answer)"
        then obtain a where a: "answer = Some a"
          and all: "\<forall>it\<in>set (items task). \<exists>ia n.
                     answer_item a (doc_id it) = Some ia \<and> coherence ia = Some n \<and> n \<noteq> 0"
          using c1 by blast
        have "item_rated answer it" if "it \<in> set (items task)" for it
        proof -
          from all that obtain ia n where ia: "answer_item a (doc_id it) = Some ia"
            and n: "coherence ia = Some n" by blast
          from wf a that ia have "coherence ia = None \<or> is_rating (coherence ia)" by blast
          with n have "is_rating (coherence ia)" by simp
          then show ?thesis using a ia by (simp add: item_rated_def)
        qed
        then have "items_rated task answer" by (simp add: items_rated_def list_all_iff)
        with nr show False by contradiction
      qed
    }
    {
      assume r: "answer \<noteq> None \<and> items_rated task answer"
      then obtain a where a: "answer = Some a" by blast
      have "\<exists>ia n. answer_item a (doc_id it) = Some ia \<and> coherence ia = Some n \<and> n \<noteq> 0"
        if "it \<in> set (items task)" for it
      proof -
        from r that have "item_rated answer it" by (simp add: items_rated_def list_all_iff)
        then show ?thesis using a
          by (auto simp: item_rated_def is_rating_def split: option.splits)
      qed
      then show "ok (validateTask task answer)" using c1 a by blast
    }
  qed
  show "\<forall>its its' l l' n n'.
            (\<forall>d. map_option coherence (its d) = map_option coherence (its' d)) \<longrightarrow>
            validateTask task (Some (ClusterAnswer its l n))
              = validateTask task (Some (ClusterAnswer its' l' n'))"
    using assms by (auto simp: validateTask_def intro!: validateItems_coherence_only)
qed

text \<open>Two items rated 5 and 1; the second item unrated; no answer at all.\<close>

theorem validateTask_cluster_witness:
  "type (clusterTask ''c1'' ''A'' ''0'' (Some 0) [mkDoc ''d1'', mkDoc ''d2'']) = ''cluster''
   \<and> ok (validateTask (clusterTask ''c1'' ''A'' ''0'' (Some 0) [mkDoc ''d1'', mkDoc ''d2''])
         (Some (ClusterAnswer [''d1'' \<mapsto> rated 5, ''d2'' \<mapsto> rated 1] [] [])))
   \<and> \<not> ok (validateTask (clusterTask ''c1'' ''A'' ''0'' (Some 0) [mkDoc ''d1'', mkDoc ''d2''])
         (Some (ClusterAnswer [''d1'' \<mapsto> rated 5] [] [])))
   \<and> \<not> ok (validateTask (clusterTask ''c1'' ''A'' ''0'' (Some 0) [mkDoc ''d1'', mkDoc ''d2'']) None)"
proof -
  have t: "type (clusterTask ''c1'' ''A'' ''0'' (Some 0) [mkDoc ''d1'', mkDoc ''d2'']) = ''cluster''"
    by (simp add: clusterTask_def)
  have i: "items (clusterTask ''c1'' ''A'' ''0'' (Some 0) [mkDoc ''d1'', mkDoc ''d2''])
             = [mkDoc ''d1'', mkDoc ''d2'']"
    by (simp add: clusterTask_def)
  show ?thesis
    using validateTask_cluster [OF t, of "Some (ClusterAnswer [''d1'' \<mapsto> rated 5, ''d2'' \<mapsto> rated 1] [] [])", THEN conjunct1]
      validateTask_cluster [OF t, of "Some (ClusterAnswer [''d1'' \<mapsto> rated 5] [] [])", THEN conjunct1]
      validateTask_cluster [OF t, of None, THEN conjunct1] t
    by (simp add: clusterTask_def mkDoc_def rated_def)
qed

text \<open>
  C3 as stated fails: a coherence of 9 is no rating in 1..5, and the cluster task
  validates.
\<close>

theorem validateTask_cluster_out_of_range:
  "type (clusterTask ''c1'' ''A'' ''0'' (Some 0) [mkDoc ''d1'']) = ''cluster''
   \<and> \<not> items_rated (clusterTask ''c1'' ''A'' ''0'' (Some 0) [mkDoc ''d1''])
         (Some (ClusterAnswer [''d1'' \<mapsto> rated 9] [] []))
   \<and> ok (validateTask (clusterTask ''c1'' ''A'' ''0'' (Some 0) [mkDoc ''d1''])
         (Some (ClusterAnswer [''d1'' \<mapsto> rated 9] [] [])))"
  by (simp add: clusterTask_def mkDoc_def rated_def items_rated_def item_rated_def is_rating_def
      validateTask_def truthy_num_def)

subsection \<open>Cluster batch information\<close>

lemma findIndex_Some:
  "findIndex P xs = Some i \<Longrightarrow> i < length xs \<and> P (xs ! i) \<and> (\<forall>j<i. \<not> P (xs ! j))"
proof (induction xs arbitrary: i)
  case Nil
  then show ?case by simp
next
  case (Cons x xs)
  show ?case
  proof (cases "P x")
    case True
    with Cons.prems show ?thesis by simp
  next
    case False
    with Cons.prems obtain i' where i': "findIndex P xs = Some i'" and i: "i = Suc i'"
      by auto
    from Cons.IH [OF i'] have "i' < length xs" "P (xs ! i')" "\<forall>j<i'. \<not> P (xs ! j)" by auto
    with False i show ?thesis by (auto simp: less_Suc_eq_0_disj)
  qed
qed

lemma findIndex_None: "findIndex P xs = None \<longleftrightarrow> (\<forall>x\<in>set xs. \<not> P x)"
  by (induction xs) auto

lemma group_of_filter:
  "filter (\<lambda>t. type t = ''cluster'' \<and> clustering_id t = clustering_id task
                \<and> cluster_id t = cluster_id task) (tasks a) = group_of a task"
  by (simp add: group_of_def)

lemma batch_or_zero_case:
  "(\<lambda>t. case batch_index t of None \<Rightarrow> 0 | Some b \<Rightarrow> b) = batch_or_zero"
  by (auto simp: batch_or_zero_def fun_eq_iff split: option.splits)

lemma computeClusterBatchInfo_unfold:
  "computeClusterBatchInfo a task =
     (if type task \<noteq> ''cluster'' then None
      else if length (group_of a task) \<le> 1 then None
      else Some \<lparr>bk = map_option Suc
                        (findIndex (\<lambda>t. getAnswerKey t = getAnswerKey task)
                           (sort_key batch_or_zero (group_of a task))),
                 bK = length (group_of a task)\<rparr>)"
  by (simp add: computeClusterBatchInfo_def group_of_filter batch_or_zero_case Let_def)

lemma stable_sort_of_sort_key: "stable_sort_of f xs (sort_key f xs)"
  by (simp add: stable_sort_of_def sort_key_stable)

text \<open>The stable sort of a list by a key is unique.\<close>

lemma stable_sort_of_unique:
  assumes "stable_sort_of f xs ys"
  shows "ys = sort_key f xs"
proof -
  have m: "mset ys = mset xs" and s: "sorted (map f ys)"
    and e: "\<And>v. filter (\<lambda>x. f x = v) ys = filter (\<lambda>x. f x = v) xs"
    using assms by (simp_all add: stable_sort_of_def)
  have "filter (\<lambda>x. f k = f x) ys = filter (\<lambda>x. f k = f x) xs" for k
    using e [of "f k"] by (simp add: eq_commute)
  with m s show ?thesis by (simp add: properties_for_sort_key)
qed

text \<open>
  C7, as amended. For a cluster task of an assignment in which at least two cluster
  tasks share its \<open>(clustering_id, cluster_id)\<close>, \<open>computeClusterBatchInfo\<close> returns \<open>k\<close>
  and \<open>K\<close> where \<open>K\<close> is the size of that group and \<open>k\<close> is the 1-based position, in the
  stable sort of the group by \<open>batch_index\<close> (a missing one being 0), of the first
  task that has the identity (\<open>task_uid\<close>, else \<open>task_id\<close>) of the given task. When the
  identities of the tasks of the group are distinct, that is the one position of
  the task itself.
\<close>

theorem computeClusterBatchInfo_part:
  assumes "type task = ''cluster''" and "task \<in> set (tasks a)"
    and "2 \<le> length (group_of a task)"
  shows "\<exists>part.
           computeClusterBatchInfo a task = Some \<lparr>bk = Some part, bK = length (group_of a task)\<rparr>
         \<and> 1 \<le> part \<and> part \<le> length (group_of a task)
         \<and> (\<exists>sorted_group. stable_sort_of batch_or_zero (group_of a task) sorted_group)
         \<and> (\<forall>sorted_group. stable_sort_of batch_or_zero (group_of a task) sorted_group \<longrightarrow>
               getAnswerKey (sorted_group ! (part - 1)) = getAnswerKey task
             \<and> (\<forall>j < part - 1. getAnswerKey (sorted_group ! j) \<noteq> getAnswerKey task)
             \<and> (distinct (map getAnswerKey (group_of a task)) \<longrightarrow>
                  sorted_group ! (part - 1) = task
                \<and> (\<forall>j < length sorted_group. sorted_group ! j = task \<longrightarrow> j = part - 1)))"
proof -
  let ?G = "group_of a task"
  let ?S = "sort_key batch_or_zero ?G"
  let ?P = "\<lambda>t. getAnswerKey t = getAnswerKey task"
  have inG: "task \<in> set ?G"
    using assms(1,2) by (simp add: group_of_def)
  then have inS: "task \<in> set ?S" by simp
  then have "findIndex ?P ?S \<noteq> None" by (auto simp: findIndex_None)
  then obtain i where i: "findIndex ?P ?S = Some i" by blast
  from findIndex_Some [OF i]
  have il: "i < length ?S" and ip: "?P (?S ! i)" and imin: "\<forall>j<i. \<not> ?P (?S ! j)" by auto
  have res: "computeClusterBatchInfo a task = Some \<lparr>bk = Some (Suc i), bK = length ?G\<rparr>"
    using assms(1,3) i by (simp add: computeClusterBatchInfo_unfold)
  have dist: "?S ! i = task \<and> (\<forall>j < length ?S. ?S ! j = task \<longrightarrow> j = i)"
    if d: "distinct (map getAnswerKey ?G)"
  proof -
    have "inj_on getAnswerKey (set ?G)" using d by (simp add: distinct_map)
    then have "inj_on getAnswerKey (set ?S)" by simp
    moreover have "?S ! i \<in> set ?S" using il by (rule nth_mem)
    ultimately have at: "?S ! i = task" using ip inS by (auto dest: inj_onD)
    have "distinct ?G" using d by (simp add: distinct_map)
    then have ds: "distinct ?S" by simp
    have "j = i" if "j < length ?S" "?S ! j = task" for j
    proof -
      have "?S ! j = ?S ! i" using that(2) at by simp
      with ds that(1) il show ?thesis by (simp only: nth_eq_iff_index_eq)
    qed
    with at show ?thesis by blast
  qed
  have all: "getAnswerKey (sg ! (Suc i - 1)) = getAnswerKey task
             \<and> (\<forall>j < Suc i - 1. getAnswerKey (sg ! j) \<noteq> getAnswerKey task)
             \<and> (distinct (map getAnswerKey ?G) \<longrightarrow>
                  sg ! (Suc i - 1) = task
                \<and> (\<forall>j < length sg. sg ! j = task \<longrightarrow> j = Suc i - 1))"
    if "stable_sort_of batch_or_zero ?G sg" for sg
  proof -
    have "sg = ?S" using that by (rule stable_sort_of_unique)
    then show ?thesis using ip imin dist by simp
  qed
  have ex: "\<exists>sg. stable_sort_of batch_or_zero ?G sg"
    using stable_sort_of_sort_key by blast
  show ?thesis
    apply (rule exI [of _ "Suc i"])
    using res il ex all by simp
qed

text \<open>
  The scenario of the specification: batch indices 0, 1, 2 stored in the order
  2, 0, 1; the task with batch index 1 is part 2 of 3. And a group of two among tasks
  outside it: the task with batch index 1 is part 2 of 2, the task without a batch
  index part 1 of 2.
\<close>

theorem computeClusterBatchInfo_part_witness:
  "type (clusterTask ''A_c0_b1'' ''A'' ''0'' (Some 1) []) = ''cluster''
   \<and> clusterTask ''A_c0_b1'' ''A'' ''0'' (Some 1) [] \<in> set (tasks batchScenario)
   \<and> 2 \<le> length (group_of batchScenario (clusterTask ''A_c0_b1'' ''A'' ''0'' (Some 1) []))
   \<and> computeClusterBatchInfo batchScenario (clusterTask ''A_c0_b1'' ''A'' ''0'' (Some 1) [])
       = Some \<lparr>bk = Some 2, bK = 3\<rparr>
   \<and> clusterTask ''A_c0_b1'' ''A'' ''0'' (Some 1) [] \<in> set (tasks mixedScenario)
   \<and> length (group_of mixedScenario (clusterTask ''A_c0_b1'' ''A'' ''0'' (Some 1) [])) = 2
   \<and> computeClusterBatchInfo mixedScenario (clusterTask ''A_c0_b1'' ''A'' ''0'' (Some 1) [])
       = Some \<lparr>bk = Some 2, bK = 2\<rparr>
   \<and> type (clusterTask ''A_c0_b0'' ''A'' ''0'' None []) = ''cluster''
   \<and> clusterTask ''A_c0_b0'' ''A'' ''0'' None [] \<in> set (tasks mixedScenario)
   \<and> computeClusterBatchInfo mixedScenario (clusterTask ''A_c0_b0'' ''A'' ''0'' None [])
       = Some \<lparr>bk = Some 1, bK = 2\<rparr>"
proof -
  let ?t = "clusterTask ''A_c0_b1'' ''A'' ''0'' (Some 1) []"
  let ?u = "clusterTask ''A_c0_b0'' ''A'' ''0'' None []"
  have h1: "type ?t = ''cluster''" "type ?u = ''cluster''" by (simp_all add: clusterTask_def)
  have h2: "?t \<in> set (tasks batchScenario)" by (simp add: batchScenario_def)
  have g: "group_of batchScenario ?t = tasks batchScenario"
    by (simp add: group_of_def batchScenario_def clusterTask_def)
  have h3: "2 \<le> length (group_of batchScenario ?t)"
    by (simp add: g) (simp add: batchScenario_def)
  have m2: "?t \<in> set (tasks mixedScenario)" "?u \<in> set (tasks mixedScenario)"
    by (simp_all add: mixedScenario_def)
  have gm: "group_of mixedScenario ?t = [?t, ?u]" "group_of mixedScenario ?u = [?t, ?u]"
    by (simp_all add: group_of_def mixedScenario_def clusterTask_def pairTask_def)
  have m3: "2 \<le> length (group_of mixedScenario ?t)" "2 \<le> length (group_of mixedScenario ?u)"
    by (simp_all add: gm)
  have d: "distinct (map getAnswerKey [?t, ?u])"
    by (simp add: clusterTask_def getAnswerKey_def or_str_def truthy_str_def)
  have k: "batch_or_zero ?t = 1" "batch_or_zero ?u = 0"
    by (simp_all add: batch_or_zero_def clusterTask_def)
  have ne: "?t \<noteq> ?u" by (simp add: clusterTask_def)
  have st: "stable_sort_of batch_or_zero [?t, ?u] [?u, ?t]"
    using ne by (auto simp: stable_sort_of_def k)
  from computeClusterBatchInfo_part [OF h1(1) h2 h3]
  obtain p1 where r1: "computeClusterBatchInfo batchScenario ?t
          = Some \<lparr>bk = Some p1, bK = length (group_of batchScenario ?t)\<rparr>"
    by blast
  have e1: "computeClusterBatchInfo batchScenario ?t = Some \<lparr>bk = Some 2, bK = 3\<rparr>"
    by (simp add: computeClusterBatchInfo_def batchScenario_def clusterTask_def
        getAnswerKey_def or_str_def truthy_str_def)
  from computeClusterBatchInfo_part [OF h1(1) m2(1) m3(1)]
  obtain p2 where r2: "computeClusterBatchInfo mixedScenario ?t
          = Some \<lparr>bk = Some p2, bK = length (group_of mixedScenario ?t)\<rparr>"
    and b2: "1 \<le> p2" "p2 \<le> length (group_of mixedScenario ?t)"
    and a2: "\<forall>sg. stable_sort_of batch_or_zero (group_of mixedScenario ?t) sg \<longrightarrow>
               (distinct (map getAnswerKey (group_of mixedScenario ?t)) \<longrightarrow> sg ! (p2 - 1) = ?t)"
    by blast
  from a2 st d have "[?u, ?t] ! (p2 - 1) = ?t" by (simp add: gm)
  with b2 ne have p2: "p2 = 2" by (cases "p2 = 1") (auto simp: gm)
  from computeClusterBatchInfo_part [OF h1(2) m2(2) m3(2)]
  obtain p3 where r3: "computeClusterBatchInfo mixedScenario ?u
          = Some \<lparr>bk = Some p3, bK = length (group_of mixedScenario ?u)\<rparr>"
    and b3: "1 \<le> p3" "p3 \<le> length (group_of mixedScenario ?u)"
    and a3: "\<forall>sg. stable_sort_of batch_or_zero (group_of mixedScenario ?u) sg \<longrightarrow>
               (distinct (map getAnswerKey (group_of mixedScenario ?u)) \<longrightarrow> sg ! (p3 - 1) = ?u)"
    by blast
  from a3 st d have "[?u, ?t] ! (p3 - 1) = ?u" by (simp add: gm)
  with b3 ne have p3: "p3 = 1" by (cases "p3 = 1") (auto simp: gm numeral_2_eq_2 le_Suc_eq)
  show ?thesis
    using h1 h2 h3 e1 m2 r2 r3 p2 p3 by (simp add: gm)
qed

text \<open>
  C7 as stated fails: of two tasks of a group that have the same \<open>task_uid\<close>, the
  second one is at position 2 of the sorted group, and is reported as part 1 of 2.
\<close>

theorem computeClusterBatchInfo_duplicate_identity:
  "type (clusterTask ''A_c0'' ''A'' ''0'' (Some 1) []) = ''cluster''
   \<and> clusterTask ''A_c0'' ''A'' ''0'' (Some 1) [] \<in> set (tasks dupScenario)
   \<and> 2 \<le> length (group_of dupScenario (clusterTask ''A_c0'' ''A'' ''0'' (Some 1) []))
   \<and> stable_sort_of batch_or_zero (group_of dupScenario (clusterTask ''A_c0'' ''A'' ''0'' (Some 1) []))
        [clusterTask ''A_c0'' ''A'' ''0'' (Some 0) [], clusterTask ''A_c0'' ''A'' ''0'' (Some 1) []]
   \<and> [clusterTask ''A_c0'' ''A'' ''0'' (Some 0) [], clusterTask ''A_c0'' ''A'' ''0'' (Some 1) []] ! (2 - 1)
        = clusterTask ''A_c0'' ''A'' ''0'' (Some 1) []
   \<and> [clusterTask ''A_c0'' ''A'' ''0'' (Some 0) [], clusterTask ''A_c0'' ''A'' ''0'' (Some 1) []] ! (1 - 1)
        \<noteq> clusterTask ''A_c0'' ''A'' ''0'' (Some 1) []
   \<and> computeClusterBatchInfo dupScenario (clusterTask ''A_c0'' ''A'' ''0'' (Some 1) [])
        = Some \<lparr>bk = Some 1, bK = 2\<rparr>"
proof -
  let ?t0 = "clusterTask ''A_c0'' ''A'' ''0'' (Some 0) []"
  let ?t1 = "clusterTask ''A_c0'' ''A'' ''0'' (Some 1) []"
  have g: "group_of dupScenario ?t1 = [?t0, ?t1]"
    by (simp add: group_of_def dupScenario_def clusterTask_def)
  have k: "batch_or_zero ?t0 = 0" "batch_or_zero ?t1 = 1"
    by (simp_all add: batch_or_zero_def clusterTask_def)
  have st: "stable_sort_of batch_or_zero [?t0, ?t1] [?t0, ?t1]"
    by (simp add: stable_sort_of_def k)
  have ne: "?t0 \<noteq> ?t1" by (simp add: clusterTask_def)
  have c: "computeClusterBatchInfo dupScenario ?t1 = Some \<lparr>bk = Some 1, bK = 2\<rparr>"
    by (simp add: computeClusterBatchInfo_def dupScenario_def clusterTask_def
        getAnswerKey_def or_str_def truthy_str_def)
  have t: "type ?t1 = ''cluster''" by (simp add: clusterTask_def)
  have m: "?t1 \<in> set (tasks dupScenario)" by (simp add: dupScenario_def)
  show ?thesis using g st ne c t m by simp
qed

subsection \<open>Navigation\<close>

lemma persist_fields:
  "state (persist P w) = state w" "assignment (persist P w) = assignment w"
  "alerts (persist P w) = alerts w" "requests (persist P w) = requests w"
  "screen (persist P w) = screen w" "taskCount (persist P w) = taskCount w"
  "btnSubmit_disabled (persist P w) = btnSubmit_disabled w"
  "submitStatus (persist P w) = submitStatus w"
  by (simp_all add: persist_def taskCount_def)

lemma updateTiming_fields:
  "taskIndex (updateTimingOnTaskSwitch now nxt s) = taskIndex s"
  "started (updateTimingOnTaskSwitch now nxt s) = started s"
  "submitted (updateTimingOnTaskSwitch now nxt s) = submitted s"
  "answers (updateTimingOnTaskSwitch now nxt s) = answers s"
  "startedAt (updateTimingOnTaskSwitch now nxt s) = startedAt s"
  "finishedAt (updateTimingOnTaskSwitch now nxt s) = finishedAt s"
  "clientSessionId (updateTimingOnTaskSwitch now nxt s) = clientSessionId s"
  "lastSubmissionUuid (updateTimingOnTaskSwitch now nxt s) = lastSubmissionUuid s"
  by (simp_all add: updateTimingOnTaskSwitch_def Let_def split: option.splits prod.splits)

lemma render_fields:
  "taskIndex (state (snd (render now w))) = taskIndex (state w)"
  "assignment (snd (render now w)) = assignment w"
  "alerts (snd (render now w)) = alerts w"
  "requests (snd (render now w)) = requests w"
  "taskCount (snd (render now w)) = taskCount w"
  "submitted (state (snd (render now w))) = submitted (state w)"
  "started (state (snd (render now w))) = started (state w)"
  by (simp_all add: render_def showScreen_def taskCount_def Let_def updateTiming_fields
      split: option.splits answer.splits)

lemma render_screen:
  "screen (snd (render now w)) =
     (if taskCount w \<le> taskIndex (state w) then Some ScreenSubmit else screen w)"
  by (simp add: render_def showScreen_def Let_def split: option.splits answer.splits)

lemma set_taskIndex_fields:
  "taskIndex (state (set_taskIndex i w)) = i" "assignment (set_taskIndex i w) = assignment w"
  "alerts (set_taskIndex i w) = alerts w" "taskCount (set_taskIndex i w) = taskCount w"
  by (simp_all add: set_taskIndex_def taskCount_def)

lemma clamp_taskCount:
  "0 \<le> clamp n 0 (taskCount w) \<and> clamp n 0 (taskCount w) \<le> taskCount w"
  by (simp add: clamp_def taskCount_def)


lemma btnNext_click_cases:
  "nth_opt (tasks (assignment w)) (taskIndex (state w)) = None \<Longrightarrow>
     btnNext_click P now w = (Some TypeError, w)"
  "nth_opt (tasks (assignment w)) (taskIndex (state w)) = Some task \<Longrightarrow>
   \<not> ok (validateTask task (answers (state w) (propKey (getAnswerKey task)))) \<Longrightarrow>
     btnNext_click P now w =
       (None, w\<lparr>alerts := alerts w @ [AlertMsg (msg (validateTask task (answers (state w) (propKey (getAnswerKey task)))))]\<rparr>)"
  "nth_opt (tasks (assignment w)) (taskIndex (state w)) = Some task \<Longrightarrow>
   ok (validateTask task (answers (state w) (propKey (getAnswerKey task)))) \<Longrightarrow>
     taskIndex (state (snd (btnNext_click P now w))) = clamp (taskIndex (state w) + 1) 0 (taskCount w)
     \<and> alerts (snd (btnNext_click P now w)) = alerts w
     \<and> taskCount (snd (btnNext_click P now w)) = taskCount w"
  by (simp_all add: btnNext_click_def Let_def render_fields persist_fields set_taskIndex_fields)



lemma tasksValidate_append:
  "tasksValidate ans (xs @ ys) \<longleftrightarrow> tasksValidate ans xs \<and> tasksValidate ans ys"
  by (induction xs) auto

text \<open>
  C10. A task whose type is neither \<open>"cluster"\<close> nor \<open>"pair"\<close> validates with any
  answer, also an absent one (\<open>ok = true\<close>, empty message). So it never blocks: the
  validation loop of \<open>submit\<close> gives the same verdict with the task as without it, and
  \<open>btnNext\<close> at such a task moves the cursor on by one and reports nothing.
\<close>

theorem validateTask_other_type:
  assumes "type task \<noteq> ''cluster''" and "type task \<noteq> ''pair''"
  shows "validateTask task answer = \<lparr>ok = True, msg = MsgNone\<rparr>
       \<and> tasksValidate ans (before @ task # after) = tasksValidate ans (before @ after)
       \<and> (\<forall>P now w. nth_opt (tasks (assignment w)) (taskIndex (state w)) = Some task \<longrightarrow>
             taskIndex (state (snd (btnNext_click P now w))) = taskIndex (state w) + 1
           \<and> alerts (snd (btnNext_click P now w)) = alerts w)"
proof (intro conjI allI impI)
  show v: "validateTask task answer = \<lparr>ok = True, msg = MsgNone\<rparr>" for answer
    using assms by (simp add: validateTask_def)
  show "tasksValidate ans (before @ task # after) = tasksValidate ans (before @ after)"
    by (simp add: tasksValidate_append v)
  fix P now and w :: world
  assume n: "nth_opt (tasks (assignment w)) (taskIndex (state w)) = Some task"
  then have r: "0 \<le> taskIndex (state w)" "taskIndex (state w) < taskCount w"
    by (auto simp: nth_opt_def taskCount_def split: if_splits)
  have o: "ok (validateTask task (answers (state w) (propKey (getAnswerKey task))))"
    by (simp add: v)
  from btnNext_click_cases(3) [OF n o, of P now] r
  show "taskIndex (state (snd (btnNext_click P now w))) = taskIndex (state w) + 1"
    and "alerts (snd (btnNext_click P now w)) = alerts w"
    by (simp_all add: clamp_def)
qed

text \<open>A task of type \<open>"survey"\<close> with no answer.\<close>

theorem validateTask_other_type_witness:
  "type surveyTask \<noteq> ''cluster'' \<and> type surveyTask \<noteq> ''pair''
   \<and> validateTask surveyTask None = \<lparr>ok = True, msg = MsgNone\<rparr>
   \<and> tasksValidate Map.empty [surveyTask]"
proof -
  have h: "type surveyTask \<noteq> ''cluster''" "type surveyTask \<noteq> ''pair''"
    by (simp_all add: surveyTask_def)
  from validateTask_other_type [OF h, of None Map.empty "[]" "[]"] h
  show ?thesis by simp
qed

subsection \<open>Timing accumulator\<close>

lemma not_inherited_proto: "prev \<notin> set Object_prototype_keys \<Longrightarrow> prev \<noteq> ''__proto__''"
  by (auto simp: Object_prototype_keys_def)

lemma updateTiming_times:
  assumes "lastTaskKey s = Some prev" "prev \<noteq> []" "prev \<notin> set Object_prototype_keys"
    and "lastTaskEnterAt s = Some t" "t \<noteq> 0" "taskTimeMs s prev \<noteq> Some Text"
  shows "taskTimeMs (updateTimingOnTaskSwitch now nxt s)
           = (taskTimeMs s)(prev \<mapsto> Ms (total_ms s prev + max 0 (now - t)))"
proof -
  have p: "plusDelta (taskTimeMs s) prev (max 0 (now - t)) = Ms (total_ms s prev + max 0 (now - t))"
    using assms(3,6)
    by (cases "taskTimeMs s prev") (auto simp: plusDelta_def total_ms_def split: time_value.splits)
  have a: "assignTime (taskTimeMs s) prev v = (taskTimeMs s)(prev \<mapsto> v)" for v
    using not_inherited_proto [OF assms(3)] by (simp add: assignTime_def)
  show ?thesis
    using assms(1,2,4,5) by (simp add: updateTimingOnTaskSwitch_def Let_def p a)
qed

lemma updateTiming_cursor:
  "lastTaskKey (updateTimingOnTaskSwitch now nxt s) = nxt"
  "lastTaskEnterAt (updateTimingOnTaskSwitch now nxt s) = Some now"
  by (simp_all add: updateTimingOnTaskSwitch_def Let_def split: option.splits prod.splits)

lemma updateTiming_frame:
  assumes "lastTaskKey s \<noteq> Some key"
  shows "taskTimeMs (updateTimingOnTaskSwitch now nxt s) key = taskTimeMs s key"
  using assms
  by (auto simp: updateTimingOnTaskSwitch_def Let_def assignTime_def split: option.splits)

lemma updateTiming_taskIndex:
  "updateTimingOnTaskSwitch now nxt (s\<lparr>taskIndex := i\<rparr>)
     = (updateTimingOnTaskSwitch now nxt s)\<lparr>taskIndex := i\<rparr>"
  by (simp add: updateTimingOnTaskSwitch_def Let_def split: option.splits)

text \<open>With the cursor in range, \<open>render\<close> switches to the task at the cursor.\<close>

lemma render_switches:
  assumes "in_range w"
  shows "state (snd (render now w))
           = updateTimingOnTaskSwitch now (cursor_key (assignment w) (taskIndex (state w))) (state w)"
  using assms
  by (auto simp: render_def showScreen_def Let_def in_range_def taskCount_def cursor_key_def
      nth_opt_def split: option.splits answer.splits)

lemma render_accumulated:
  assumes "lastTaskKey s = Some prev" "prev \<noteq> []" "prev \<notin> set Object_prototype_keys"
    and "lastTaskEnterAt s = Some t" "t \<noteq> 0" "taskTimeMs s prev \<noteq> Some Text"
    and "in_range w" and "assignment w = a"
    and "state w = s\<lparr>taskIndex := i\<rparr>"
  shows "accumulated s prev t now a (state (snd (render now w)))"
proof -
  have "state (snd (render now w))
          = (updateTimingOnTaskSwitch now (cursor_key a i) s)\<lparr>taskIndex := i\<rparr>"
    using render_switches [OF assms(7), of now] assms(8,9)
    by (simp add: updateTiming_taskIndex)
  then show ?thesis
    using updateTiming_times [OF assms(1-6), of now "cursor_key a i"]
    by (simp add: accumulated_def updateTiming_cursor)
qed

lemma moved_world:
  "assignment (persist P (set_taskIndex i w)) = assignment w"
  "state (persist P (set_taskIndex i w)) = (state w)\<lparr>taskIndex := i\<rparr>"
  "in_range (persist P (set_taskIndex i w)) \<longleftrightarrow> 0 \<le> i \<and> i \<le> taskCount w"
  by (simp_all add: persist_def set_taskIndex_def in_range_def taskCount_def)

text \<open>
  C8, as amended. Let a task \<open>prev\<close> be current since clock \<open>t\<close>: its key is non-empty
  and the clock is not 0 (what the source takes for a previous task), its key is not
  the name of a member that a plain object inherits from \<open>Object.prototype\<close>, and its
  recorded total, if any, is a number. Then a switch at clock \<open>now\<close> adds
  \<open>max 0 (now - t)\<close> to the total of \<open>prev\<close> in \<open>taskTimeMs\<close> (a missing total being 0),
  changes no other total and makes the next task current since \<open>now\<close>. Every change
  of the task cursor performs this switch towards the task at the new cursor, and
  towards no task when the cursor is past the last task: \<open>btnBack\<close>, \<open>btnReview\<close>,
  \<open>btnNext\<close> when the validator accepts the current task, and \<open>render\<close> with the
  cursor in range. A task visited twice accumulates: entered at \<open>t\<close>, left for
  another task at \<open>t1\<close>, entered again at \<open>t2\<close> and left at \<open>t3\<close>, its total has grown
  by \<open>max 0 (t1 - t) + max 0 (t3 - t2)\<close>.
\<close>

theorem timing_accumulates:
  assumes "lastTaskKey s = Some prev" and "prev \<noteq> []" and "prev \<notin> set Object_prototype_keys"
    and "lastTaskEnterAt s = Some t" and "t \<noteq> 0" and "taskTimeMs s prev \<noteq> Some Text"
  shows "taskTimeMs (updateTimingOnTaskSwitch now nxt s)
           = (taskTimeMs s)(prev \<mapsto> Ms (total_ms s prev + max 0 (now - t)))
       \<and> lastTaskKey (updateTimingOnTaskSwitch now nxt s) = nxt
       \<and> lastTaskEnterAt (updateTimingOnTaskSwitch now nxt s) = Some now
       \<and> (\<forall>P w. state w = s \<longrightarrow>
             accumulated s prev t now (assignment w) (state (snd (btnBack_click P now w)))
           \<and> accumulated s prev t now (assignment w) (state (snd (btnReview_click P now w)))
           \<and> (\<forall>task. nth_opt (tasks (assignment w)) (taskIndex s) = Some task
                  \<and> ok (validateTask task (answers s (propKey (getAnswerKey task)))) \<longrightarrow>
                accumulated s prev t now (assignment w) (state (snd (btnNext_click P now w))))
           \<and> (in_range w \<longrightarrow>
                accumulated s prev t now (assignment w) (state (snd (render now w)))))
       \<and> (\<forall>other t1 t2 t3 nxt'. other \<noteq> prev \<and> t1 \<noteq> 0 \<and> t2 \<noteq> 0 \<longrightarrow>
             total_ms (updateTimingOnTaskSwitch t3 nxt'
                        (updateTimingOnTaskSwitch t2 (Some prev)
                          (updateTimingOnTaskSwitch t1 (Some other) s))) prev
               = total_ms s prev + max 0 (t1 - t) + max 0 (t3 - t2))"
proof (intro conjI allI impI)
  show "taskTimeMs (updateTimingOnTaskSwitch now nxt s)
           = (taskTimeMs s)(prev \<mapsto> Ms (total_ms s prev + max 0 (now - t)))"
    using assms by (rule updateTiming_times)
  show "lastTaskKey (updateTimingOnTaskSwitch now nxt s) = nxt" by (rule updateTiming_cursor)
  show "lastTaskEnterAt (updateTimingOnTaskSwitch now nxt s) = Some now" by (rule updateTiming_cursor)
next
  fix P and w :: world
  assume w: "state w = s"
  have moved: "accumulated s prev t now (assignment w)
                 (state (snd (render now (persist P (set_taskIndex i w)))))"
    if "0 \<le> i" "i \<le> taskCount w" for i
    using that w
    by (intro render_accumulated [OF assms, where i = i]) (simp_all add: moved_world)
  show "accumulated s prev t now (assignment w) (state (snd (btnBack_click P now w)))"
    unfolding btnBack_click_def using clamp_taskCount [of "taskIndex (state w) - 1" w]
    by (intro moved) simp_all
  show "accumulated s prev t now (assignment w) (state (snd (btnReview_click P now w)))"
    unfolding btnReview_click_def
    by (intro moved) (simp_all add: taskCount_def)
  show "accumulated s prev t now (assignment w) (state (snd (btnNext_click P now w)))"
    if "nth_opt (tasks (assignment w)) (taskIndex s) = Some task
          \<and> ok (validateTask task (answers s (propKey (getAnswerKey task))))" for task
  proof -
    have "btnNext_click P now w
            = render now (persist P (set_taskIndex (clamp (taskIndex (state w) + 1) 0 (taskCount w)) w))"
      using that w by (simp add: btnNext_click_def Let_def)
    then show ?thesis
      using clamp_taskCount [of "taskIndex (state w) + 1" w]
      by (simp only:) (intro moved, simp_all)
  qed
  show "accumulated s prev t now (assignment w) (state (snd (render now w)))" if "in_range w"
    using that w by (intro render_accumulated [OF assms, where i = "taskIndex s"]) simp_all
next
  fix other :: string and t1 t2 t3 :: int and nxt' :: "string option"
  assume h: "other \<noteq> prev \<and> t1 \<noteq> 0 \<and> t2 \<noteq> 0"
  let ?s1 = "updateTimingOnTaskSwitch t1 (Some other) s"
  let ?s2 = "updateTimingOnTaskSwitch t2 (Some prev) ?s1"
  have a1: "taskTimeMs ?s1 prev = Some (Ms (total_ms s prev + max 0 (t1 - t)))"
    using updateTiming_times [OF assms, of t1 "Some other"] by simp
  have c1: "lastTaskKey ?s1 = Some other" by (rule updateTiming_cursor)
  have a2: "taskTimeMs ?s2 prev = taskTimeMs ?s1 prev"
    using c1 h by (intro updateTiming_frame) simp
  have c2: "lastTaskKey ?s2 = Some prev" "lastTaskEnterAt ?s2 = Some t2"
    by (rule updateTiming_cursor)+
  have n2: "taskTimeMs ?s2 prev \<noteq> Some Text" using a1 a2 by simp
  have t2: "t2 \<noteq> 0" using h by simp
  have a3: "taskTimeMs (updateTimingOnTaskSwitch t3 nxt' ?s2) prev
              = Some (Ms (total_ms ?s2 prev + max 0 (t3 - t2)))"
    using updateTiming_times [OF c2(1) assms(2,3) c2(2) t2 n2, of t3 nxt'] by simp
  have "total_ms ?s2 prev = total_ms s prev + max 0 (t1 - t)"
    using a1 a2 by (simp add: total_ms_def)
  with a3 show "total_ms (updateTimingOnTaskSwitch t3 nxt' ?s2) prev
               = total_ms s prev + max 0 (t1 - t) + max 0 (t3 - t2)"
    by (simp add: total_ms_def)
qed

text \<open>
  The first task, entered at 1000 and left by \<open>btnNext\<close> at 1500, has 500 and the
  pair task is current; left for the pair task at 1500, entered again at 3000 and
  left at 4000, it has 1500. The last task, entered at 2000 and left by \<open>btnNext\<close>
  at 2600, has 600 and no task is current.
\<close>

theorem timing_accumulates_witness:
  "lastTaskKey (state timedWorld) = Some ''A_c0_b0''
   \<and> ''A_c0_b0'' \<notin> set Object_prototype_keys
   \<and> lastTaskEnterAt (state timedWorld) = Some 1000
   \<and> taskTimeMs (state (snd (btnNext_click demoPlatform 1500 timedWorld))) ''A_c0_b0'' = Some (Ms 500)
   \<and> lastTaskKey (state (snd (btnNext_click demoPlatform 1500 timedWorld))) = Some ''A_p0''
   \<and> total_ms (updateTimingOnTaskSwitch 4000 None
                 (updateTimingOnTaskSwitch 3000 (Some ''A_c0_b0'')
                   (updateTimingOnTaskSwitch 1500 (Some ''A_p0'') (state timedWorld)))) ''A_c0_b0''
        = 1500
   \<and> taskTimeMs (state (snd (btnNext_click demoPlatform 2600 lastWorld))) ''A_p0'' = Some (Ms 600)
   \<and> lastTaskKey (state (snd (btnNext_click demoPlatform 2600 lastWorld))) = None"
proof -
  let ?c = "clusterTask ''A_c0_b0'' ''A'' ''0'' (Some 0) [mkDoc ''d1'', mkDoc ''d2'', mkDoc ''d3'']"
  let ?p = "pairTask ''A_p0'' ''A'' ''d1'' ''d2''"
  let ?s = "state timedWorld"
  let ?l = "state lastWorld"
  have a: "assignment timedWorld = demoAssignment" "assignment lastWorld = demoAssignment"
    "tasks demoAssignment = [?c, ?p]"
    by (simp_all add: timedWorld_def lastWorld_def demoWorld_def demoAssignment_def)
  have i: "taskIndex ?s = 0" "taskIndex ?l = 1"
    by (simp_all add: timedWorld_def lastWorld_def demoSession_def defaultState_def)
  have c: "taskCount timedWorld = 2" "taskCount lastWorld = 2"
    by (simp_all add: taskCount_def a)
  have hs: "lastTaskKey ?s = Some ''A_c0_b0''" "''A_c0_b0'' \<noteq> []"
    "''A_c0_b0'' \<notin> set Object_prototype_keys" "lastTaskEnterAt ?s = Some 1000" "(1000::int) \<noteq> 0"
    "taskTimeMs ?s ''A_c0_b0'' \<noteq> Some Text"
    by (simp_all add: timedWorld_def demoSession_def defaultState_def Object_prototype_keys_def)
  have hl: "lastTaskKey ?l = Some ''A_p0''" "''A_p0'' \<noteq> []"
    "''A_p0'' \<notin> set Object_prototype_keys" "lastTaskEnterAt ?l = Some 2000" "(2000::int) \<noteq> 0"
    "taskTimeMs ?l ''A_p0'' \<noteq> Some Text"
    by (simp_all add: lastWorld_def demoSession_def defaultState_def Object_prototype_keys_def)
  have z: "total_ms ?s ''A_c0_b0'' = 0" "total_ms ?l ''A_p0'' = 0"
    by (simp_all add: total_ms_def timedWorld_def lastWorld_def demoSession_def defaultState_def)
  have ns: "nth_opt (tasks (assignment timedWorld)) (taskIndex ?s) = Some ?c"
    by (simp add: a i nth_opt_def)
  have nl: "nth_opt (tasks (assignment lastWorld)) (taskIndex ?l) = Some ?p"
    by (simp add: a i nth_opt_def)
  have vs: "ok (validateTask ?c (answers ?s (propKey (getAnswerKey ?c))))"
    by (simp add: timedWorld_def demoSession_def demoAnswers_def clusterTask_def
      mkDoc_def rated_def validateTask_def getAnswerKey_def or_str_def truthy_str_def
      propKey_def truthy_num_def)
  have vl: "ok (validateTask ?p (answers ?l (propKey (getAnswerKey ?p))))"
    by (simp add: lastWorld_def demoSession_def demoAnswers_def pairTask_def
      validateTask_def getAnswerKey_def or_str_def truthy_str_def
      propKey_def truthy_num_def Number_ge_def)
  have js: "taskIndex (state (snd (btnNext_click demoPlatform 1500 timedWorld))) = 1"
    using btnNext_click_cases(3) [OF ns vs, of demoPlatform 1500] by (simp add: i c clamp_def)
  have jl: "taskIndex (state (snd (btnNext_click demoPlatform 2600 lastWorld))) = 2"
    using btnNext_click_cases(3) [OF nl vl, of demoPlatform 2600] by (simp add: i c clamp_def)
  have k: "cursor_key demoAssignment 1 = Some ''A_p0''" "cursor_key demoAssignment 2 = None"
    by (simp_all add: cursor_key_def a pairTask_def getAnswerKey_def or_str_def truthy_str_def)
  from timing_accumulates [OF hs, of 1500 None]
  have s1: "accumulated ?s ''A_c0_b0'' 1000 1500 (assignment timedWorld)
              (state (snd (btnNext_click demoPlatform 1500 timedWorld)))"
    and s2: "total_ms (updateTimingOnTaskSwitch 4000 None
                 (updateTimingOnTaskSwitch 3000 (Some ''A_c0_b0'')
                   (updateTimingOnTaskSwitch 1500 (Some ''A_p0'') ?s))) ''A_c0_b0''
               = total_ms ?s ''A_c0_b0'' + max 0 (1500 - 1000) + max 0 (4000 - 3000)"
    using ns vs by auto
  from timing_accumulates [OF hl, of 2600 None]
  have l1: "accumulated ?l ''A_p0'' 2000 2600 (assignment lastWorld)
              (state (snd (btnNext_click demoPlatform 2600 lastWorld)))"
    using nl vl by auto
  show ?thesis
    using s1 s2 l1 hs(1,3,4) by (simp add: accumulated_def z a js jl k)
qed

text \<open>
  C8 as stated fails: for a task whose key is \<open>"constructor"\<close> the first switch reads
  the inherited function as its total and stores a string, not the elapsed
  milliseconds.
\<close>

theorem timing_inherited_key:
  "lastTaskKey constructorSession = Some ''constructor''
   \<and> lastTaskEnterAt constructorSession = Some 1000
   \<and> taskTimeMs constructorSession ''constructor'' = None
   \<and> taskTimeMs (updateTimingOnTaskSwitch 1500 (Some ''B'') constructorSession) ''constructor''
        = Some Text"
  by (simp add: constructorSession_def defaultState_def updateTimingOnTaskSwitch_def Let_def
      plusDelta_def assignTime_def Object_prototype_keys_def)

subsection \<open>Loading the page\<close>

lemma render_cases: "\<exists>e w'. render now w = (e, w')"
  by (cases "render now w") simp

text \<open>
  C5. Whenever the assignment has been fetched, \<open>init\<close> ends with the screen that the
  persisted session alone determines (the default session when none is stored): the
  thanks screen if \<open>submitted\<close>; otherwise, if \<open>started\<close>, the submit screen when
  \<open>taskIndex >= taskCount\<close> and the task screen when not; otherwise the welcome screen.
\<close>

theorem init_screen:
  assumes "fetched env (assignmentPath (expertOf env)) = Some a"
  shows "\<exists>w. init P env = Inr w \<and> assignment w = a
           \<and> screen w = Some (screenFor (restoreState P (stored env) (storageKey (expertOf env) (assignment_id a))) (int (length (tasks a))))
           \<and> submitted (state w) = submitted (restoreState P (stored env) (storageKey (expertOf env) (assignment_id a)))
           \<and> started (state w) = started (restoreState P (stored env) (storageKey (expertOf env) (assignment_id a)))
           \<and> taskIndex (state w) = taskIndex (restoreState P (stored env) (storageKey (expertOf env) (assignment_id a)))"
proof -
  let ?key = "storageKey (expertOf env) (assignment_id a)"
  let ?st0 = "restoreState P (stored env) ?key"
  let ?ens = "ensureClientSessionId (expertOf env) (session_hex env) (stored env)"
  let ?st1 = "if \<not> truthy_str (clientSessionId ?st0) then ?st0\<lparr>clientSessionId := Some (fst ?ens)\<rparr> else ?st0"
  let ?store1 = "if \<not> truthy_str (clientSessionId ?st0) then snd ?ens else stored env"
  let ?w0 = "\<lparr>assignment = a, expertId = expertOf env, stateKey = ?key, state = ?st1,
               localStorage = ?store1, screen = None, btnSubmit_disabled = False,
               submitStatus = StatusEmpty, titlePart = None, alerts = [], requests = []\<rparr>"
  have f: "submitted ?st1 = submitted ?st0" "started ?st1 = started ?st0" "taskIndex ?st1 = taskIndex ?st0"
    by simp_all
  have c: "taskCount ?w0 = int (length (tasks a))" by (simp add: taskCount_def)
  show ?thesis
  proof (cases "submitted ?st0")
    case True
    then have "init P env = Inr (persist P (showScreen ScreenThanks ?w0))"
      using assms by (simp add: init_def Let_def)
    then show ?thesis using True
      by (simp add: persist_fields showScreen_def screenFor_def)
  next
    case ns: False
    show ?thesis
    proof (cases "started ?st0")
      case False
      then have "init P env = Inr (persist P (showScreen ScreenWelcome ?w0))"
        using assms ns by (simp add: init_def Let_def)
      then show ?thesis using ns False
        by (simp add: persist_fields showScreen_def screenFor_def)
    next
      case True
      let ?w1 = "if taskCount ?w0 \<le> taskIndex ?st1 then showScreen ScreenSubmit ?w0
                 else showScreen ScreenTask ?w0"
      obtain e w2 where r: "render (load_now env) ?w1 = (e, w2)"
        using render_cases by blast
      have w2: "w2 = snd (render (load_now env) ?w1)" using r by simp
      have i: "init P env = Inr (case e of None \<Rightarrow> persist P w2
                 | Some x \<Rightarrow> w2\<lparr>alerts := alerts w2 @ [AlertNoAssignment (expertOf env)]\<rparr>)"
        using assms ns True r by (simp add: init_def Let_def split: option.splits)
      have s1: "state ?w1 = ?st1" "assignment ?w1 = a" "taskCount ?w1 = int (length (tasks a))"
        by (simp_all add: showScreen_def taskCount_def)
      have sc: "screen w2 = Some (screenFor ?st0 (int (length (tasks a))))"
        unfolding w2 render_screen s1 using ns True
        by (simp add: screenFor_def showScreen_def taskCount_def)
      have fl: "assignment w2 = a" "submitted (state w2) = submitted ?st0"
        "started (state w2) = started ?st0" "taskIndex (state w2) = taskIndex ?st0"
        unfolding w2 render_fields s1 by simp_all
      show ?thesis using i sc fl
        by (cases e) (simp_all add: persist_fields)
    qed
  qed
qed

text \<open>A reload with a stored session that is submitted: the thanks screen.\<close>

theorem init_screen_witness:
  "fetched (demoEnv [storageKey ''E1'' ''a1'' \<mapsto> ''done''])
      (assignmentPath (expertOf (demoEnv [storageKey ''E1'' ''a1'' \<mapsto> ''done'']))) = Some demoAssignment
   \<and> (\<exists>w. init demoPlatform (demoEnv [storageKey ''E1'' ''a1'' \<mapsto> ''done'']) = Inr w
          \<and> screen w = Some ScreenThanks)"
proof -
  let ?env = "demoEnv [storageKey ''E1'' ''a1'' \<mapsto> ''done'']"
  have e: "expertOf ?env = ''E1''" by (simp add: expertOf_def demoEnv_def)
  have h: "fetched ?env (assignmentPath (expertOf ?env)) = Some demoAssignment"
    by (simp add: e) (simp add: demoEnv_def assignmentPath_def)
  have a: "assignment_id demoAssignment = ''a1''" by (simp add: demoAssignment_def)
  have r: "restoreState demoPlatform (stored ?env) (storageKey (expertOf ?env) (assignment_id demoAssignment))
             = demoSession\<lparr>submitted := True\<rparr>"
    by (simp add: e a) (simp add: restoreState_def loadState_def demoEnv_def demoPlatform_def)
  from init_screen [OF h, of demoPlatform] h show ?thesis
    by (auto simp: r screenFor_def)
qed

lemma loadState_None:
  assumes "store key = None \<or> (\<exists>raw. store key = Some raw \<and> (raw = [] \<or> JSON_parse P raw = None))"
  shows "loadState P store key = None"
  using assms by (auto simp: loadState_def)

text \<open>
  C9. When the stored session value is absent, or is empty or not parseable as JSON,
  \<open>loadState\<close> returns \<open>null\<close> and the session is \<open>defaultState()\<close>: \<open>init\<close> then returns
  normally, with no alert, on the welcome screen, its state being the default one
  with the client session identifier filled in, and the stored value replaced by the
  serialisation of that state. Nothing in this distinguishes a malformed record from
  an absent one.
\<close>

theorem corrupt_storage_is_fresh_start:
  assumes "store key = None \<or> (\<exists>raw. store key = Some raw \<and> (raw = [] \<or> JSON_parse P raw = None))"
  shows "loadState P store key = None
       \<and> restoreState P store key = defaultState
       \<and> (\<forall>env a. stored env = store \<and> key = storageKey (expertOf env) (assignment_id a)
              \<and> fetched env (assignmentPath (expertOf env)) = Some a \<longrightarrow>
            (\<exists>w. init P env = Inr w
               \<and> state w = defaultState\<lparr>clientSessionId :=
                    Some (fst (ensureClientSessionId (expertOf env) (session_hex env) store))\<rparr>
               \<and> screen w = Some ScreenWelcome \<and> alerts w = []
               \<and> localStorage w key = Some (JSON_stringify P (state w))))"
proof (intro conjI allI impI)
  show l: "loadState P store key = None" using assms by (rule loadState_None)
  then show d: "restoreState P store key = defaultState" by (simp add: restoreState_def)
  fix env a
  assume h: "stored env = store \<and> key = storageKey (expertOf env) (assignment_id a)
              \<and> fetched env (assignmentPath (expertOf env)) = Some a"
  have k: "key \<noteq> []" using h by (simp add: storageKey_def STORAGE_PREFIX_def)
  have r: "restoreState P store (storageKey (expertOf env) (assignment_id a)) = defaultState"
    using d h by simp
  show "\<exists>w. init P env = Inr w
               \<and> state w = defaultState\<lparr>clientSessionId :=
                    Some (fst (ensureClientSessionId (expertOf env) (session_hex env) store))\<rparr>
               \<and> screen w = Some ScreenWelcome \<and> alerts w = []
               \<and> localStorage w key = Some (JSON_stringify P (state w))"
    using h k by (simp add: init_def Let_def r defaultState_def truthy_str_def persist_def
        showScreen_def saveState_def)
qed

text \<open>A stored text that the parser rejects.\<close>

theorem corrupt_storage_is_fresh_start_witness:
  "([storageKey ''E1'' ''a1'' \<mapsto> ''{broken''] (storageKey ''E1'' ''a1'') = Some ''{broken''
     \<and> JSON_parse demoPlatform ''{broken'' = None)
   \<and> loadState demoPlatform [storageKey ''E1'' ''a1'' \<mapsto> ''{broken''] (storageKey ''E1'' ''a1'') = None
   \<and> (\<exists>w. init demoPlatform (demoEnv [storageKey ''E1'' ''a1'' \<mapsto> ''{broken'']) = Inr w
          \<and> state w = defaultState\<lparr>clientSessionId := Some ''sess_00''\<rparr>
          \<and> screen w = Some ScreenWelcome \<and> alerts w = [])"
proof -
  let ?store = "[storageKey ''E1'' ''a1'' \<mapsto> ''{broken'']"
  let ?env = "demoEnv ?store"
  have p: "JSON_parse demoPlatform ''{broken'' = None" by (simp add: demoPlatform_def)
  have h: "?store (storageKey ''E1'' ''a1'') = None
           \<or> (\<exists>raw. ?store (storageKey ''E1'' ''a1'') = Some raw \<and> (raw = [] \<or> JSON_parse demoPlatform raw = None))"
    using p by simp
  have e: "expertOf ?env = ''E1''" by (simp add: expertOf_def demoEnv_def)
  have g: "stored ?env = ?store \<and> storageKey ''E1'' ''a1'' = storageKey (expertOf ?env) (assignment_id demoAssignment)
           \<and> fetched ?env (assignmentPath (expertOf ?env)) = Some demoAssignment"
    by (simp add: e) (simp add: demoEnv_def assignmentPath_def demoAssignment_def)
  have c: "fst (ensureClientSessionId (expertOf ?env) (session_hex ?env) ?store) = ''sess_00''"
    by (simp add: e) (simp add: ensureClientSessionId_def demoEnv_def randomId_def storageKey_def
        STORAGE_PREFIX_def Let_def)
  from corrupt_storage_is_fresh_start
         [where store = ?store and key = "storageKey ''E1'' ''a1''" and P = demoPlatform, OF h] g
  have "loadState demoPlatform ?store (storageKey ''E1'' ''a1'') = None"
    and "\<exists>w. init demoPlatform ?env = Inr w
               \<and> state w = defaultState\<lparr>clientSessionId :=
                    Some (fst (ensureClientSessionId (expertOf ?env) (session_hex ?env) ?store))\<rparr>
               \<and> screen w = Some ScreenWelcome \<and> alerts w = []
               \<and> localStorage w (storageKey ''E1'' ''a1'') = Some (JSON_stringify demoPlatform (state w))"
    by blast+
  then show ?thesis using p c by auto
qed

subsection \<open>Submission pipeline\<close>

text \<open>
  C1. On a session already marked \<open>submitted\<close>, \<open>submit\<close> (in both variants) only shows
  the thanks screen: no form post is issued, the storage is not written, and the
  session (with it \<open>answers\<close>, \<open>startedAt\<close>, \<open>finishedAt\<close>, \<open>lastSubmissionUuid\<close> and
  \<open>taskTimeMs\<close>) is unchanged.
\<close>

theorem submit_when_submitted:
  assumes "submitted (state w)"
  shows "submit P env w = showScreen ScreenThanks w
       \<and> submit_part_001 P env w = showScreen ScreenThanks w
       \<and> requests (submit P env w) = requests w
       \<and> localStorage (submit P env w) = localStorage w
       \<and> state (submit P env w) = state w
       \<and> screen (submit P env w) = Some ScreenThanks
       \<and> requests (submit_part_001 P env w) = requests w
       \<and> localStorage (submit_part_001 P env w) = localStorage w
       \<and> state (submit_part_001 P env w) = state w
       \<and> screen (submit_part_001 P env w) = Some ScreenThanks"
  using assms by (simp add: submit_def submit_part_001_def showScreen_def)

text \<open>The answered page, marked submitted, with no post issued before.\<close>

theorem submit_when_submitted_witness:
  "submitted (state (demoWorld\<lparr>state := demoSession\<lparr>submitted := True\<rparr>\<rparr>))
   \<and> requests (submit demoPlatform failingEnv (demoWorld\<lparr>state := demoSession\<lparr>submitted := True\<rparr>\<rparr>)) = []
   \<and> state (submit demoPlatform failingEnv (demoWorld\<lparr>state := demoSession\<lparr>submitted := True\<rparr>\<rparr>))
       = demoSession\<lparr>submitted := True\<rparr>
   \<and> screen (submit demoPlatform failingEnv (demoWorld\<lparr>state := demoSession\<lparr>submitted := True\<rparr>\<rparr>))
       = Some ScreenThanks"
proof -
  have h: "submitted (state (demoWorld\<lparr>state := demoSession\<lparr>submitted := True\<rparr>\<rparr>))" by simp
  from submit_when_submitted [OF h, of demoPlatform failingEnv] h
  show ?thesis by (simp add: demoWorld_def showScreen_def)
qed

text \<open>
  With \<open>fetch\<close> (assets/app.js), a failed transmission of a session that is not
  submitted and whose tasks all validate leaves \<open>submitted\<close> false, re-enables the submit
  control and sets an error status; of the session only \<open>finishedAt\<close> and
  \<open>lastSubmissionUuid\<close>, stamped before the post, have changed, and a later attempt
  that succeeds marks the session submitted.
\<close>

lemma submit_transport_failure:
  assumes "\<not> submitted (state w)"
    and "tasksValidate (answers (state w)) (tasks (assignment w))"
    and "form_found env" and "transport_failed env"
  shows "\<not> submitted (state (submit P env w))
       \<and> \<not> btnSubmit_disabled (submit P env w)
       \<and> is_error_status (submitStatus (submit P env w))
       \<and> state (submit P env w)
            = (state w)\<lparr>finishedAt := Some (finished_iso env),
                         lastSubmissionUuid := Some (randomId ''sub'' (submission_hex env))\<rparr>
       \<and> screen (submit P env w) = screen w
       \<and> length (requests (submit P env w)) = Suc (length (requests w))"
  using assms
  by (cases "post_outcome env")
     (simp_all add: submit_def Let_def transport_failed_def is_error_status_def persist_def)

lemma submit_success:
  assumes "\<not> submitted (state w)"
    and "tasksValidate (answers (state w)) (tasks (assignment w))"
    and "form_found env" and "post_outcome env = Response status body" and "response_ok status"
  shows "submitted (state (submit P env w)) \<and> screen (submit P env w) = Some ScreenThanks"
  using assms by (simp add: submit_def Let_def persist_def showScreen_def)

lemma submit_assignment: "assignment (submit P env w) = assignment w"
  by (simp add: submit_def Let_def persist_def showScreen_def split: fetch_result.splits)

lemma submit_retry:
  assumes "\<not> submitted (state w)"
    and "tasksValidate (answers (state w)) (tasks (assignment w))"
    and "form_found env" and "transport_failed env"
    and "form_found env'" and "post_outcome env' = Response status body" and "response_ok status"
  shows "submitted (state (submit P env' (submit P env w)))
       \<and> screen (submit P env' (submit P env w)) = Some ScreenThanks"
proof -
  let ?w = "submit P env w"
  from submit_transport_failure [OF assms(1-4), of P]
  have n: "\<not> submitted (state ?w)"
    and s: "state ?w = (state w)\<lparr>finishedAt := Some (finished_iso env),
                         lastSubmissionUuid := Some (randomId ''sub'' (submission_hex env))\<rparr>"
    by blast+
  have v: "tasksValidate (answers (state ?w)) (tasks (assignment ?w))"
    using assms(2) by (simp add: s submit_assignment)
  from submit_success [OF n v assms(5-7)] show ?thesis .
qed

text \<open>
  With the hidden iframe (src/unnamed/part_001), the outcome of the post is never
  looked at: whenever the form and the iframe are in the page, the session is marked
  submitted and the thanks screen is shown.
\<close>

lemma submit_part_001_ignores_outcome:
  assumes "\<not> submitted (state w)"
    and "tasksValidate (answers (state w)) (tasks (assignment w))"
    and "form_found env" and "iframe_found env"
  shows "submitted (state (submit_part_001 P env w))
       \<and> screen (submit_part_001 P env w) = Some ScreenThanks
       \<and> submitStatus (submit_part_001 P env w) = StatusEmpty"
  using assms
  by (simp add: submit_part_001_def submitViaNetlifyForm_def Let_def persist_def showScreen_def)

lemma demo_valid: "tasksValidate (answers (state demoWorld)) (tasks (assignment demoWorld))"
  by (simp add: demoWorld_def demoSession_def demoAssignment_def demoAnswers_def clusterTask_def
      pairTask_def mkDoc_def rated_def validateTask_def getAnswerKey_def or_str_def truthy_str_def
      propKey_def truthy_num_def Number_ge_def)

lemma demo_open: "\<not> submitted (state demoWorld)"
  by (simp add: demoWorld_def demoSession_def defaultState_def)

text \<open>
  C4. A session that is not submitted and whose tasks all validate, and a post that
  meets a network failure. The claim asks that \<open>submitted\<close> stay false, the submit
  control be re-enabled and an error be shown. The \<open>fetch\<close> variant does so; the iframe
  variant marks the session submitted and shows the thanks screen.
\<close>

theorem submit_part_001_failed_post:
  "\<not> submitted (state demoWorld)
   \<and> tasksValidate (answers (state demoWorld)) (tasks (assignment demoWorld))
   \<and> transport_failed failingEnv
   \<and> submitted (state (submit_part_001 demoPlatform failingEnv demoWorld))
   \<and> screen (submit_part_001 demoPlatform failingEnv demoWorld) = Some ScreenThanks
   \<and> \<not> submitted (state (submit demoPlatform failingEnv demoWorld))
   \<and> \<not> btnSubmit_disabled (submit demoPlatform failingEnv demoWorld)
   \<and> submitStatus (submit demoPlatform failingEnv demoWorld) = StatusNetworkError"
proof -
  have f: "form_found failingEnv" "iframe_found failingEnv" "transport_failed failingEnv"
    "post_outcome failingEnv = NetworkFailure"
    by (simp_all add: failingEnv_def transport_failed_def)
  have s: "submitStatus (submit demoPlatform failingEnv demoWorld) = StatusNetworkError"
    using demo_open demo_valid f by (simp add: submit_def Let_def persist_def)
  from submit_part_001_ignores_outcome [OF demo_open demo_valid f(1,2), of demoPlatform]
    submit_transport_failure [OF demo_open demo_valid f(1,3), of demoPlatform]
    demo_open demo_valid f(3) s
  show ?thesis by simp
qed

end
